theory Spec2Isabelle
  imports Complex_Main
begin

section \<open>Engine types the sources are written against\<close>

text \<open>
  The sources are Unreal Engine C++. Three engine types carry semantics the
  sources rely on without spelling them out; they are modelled here once.

  \<^item> \<open>FString\<close>: a string is a \<open>char list\<close>. The engine's \<open>operator==\<close> and
    \<open>operator!=\<close> on \<open>FString\<close> compare with \<open>Stricmp\<close>, that is, ignoring the case
    of the ASCII letters. \<open>TArray<FString>::Contains\<close> and the key lookup of
    \<open>TMap<FString, V>\<close> go through that same comparison.
  \<^item> \<open>TMap<FString, V>\<close>: a partial map indexed by the case-folded key. Writing
    through the pointer that \<open>Find\<close> returns is a store under the same key.
  \<^item> \<open>FDateTime\<close>: a count of 100-nanosecond ticks since 0001-01-01 (an int64;
    every date the engine can represent is far from the int64 bounds, so the
    ticks are an unbounded \<open>int\<close> here). \<open>FTimespan\<close> is a tick count as well.
\<close>

definition ToLower :: "char \<Rightarrow> char" where
  "ToLower c =
     (case map_of (zip ''ABCDEFGHIJKLMNOPQRSTUVWXYZ'' ''abcdefghijklmnopqrstuvwxyz'') c of
        Some l \<Rightarrow> l
      | None \<Rightarrow> c)"

definition FString_eq :: "string \<Rightarrow> string \<Rightarrow> bool" where
  "FString_eq a b = (map ToLower a = map ToLower b)"

definition Contains :: "string list \<Rightarrow> string \<Rightarrow> bool" where
  "Contains xs x = list_ex (\<lambda>y. FString_eq y x) xs"

type_synonym 'v TMap = "string \<rightharpoonup> 'v"

definition KeyOf :: "string \<Rightarrow> string" where
  "KeyOf k = map ToLower k"

definition TMap_Find :: "'v TMap \<Rightarrow> string \<Rightarrow> 'v option" where
  "TMap_Find m k = m (KeyOf k)"

definition TMap_Add :: "'v TMap \<Rightarrow> string \<Rightarrow> 'v \<Rightarrow> 'v TMap" where
  "TMap_Add m k v = m(KeyOf k \<mapsto> v)"

type_synonym FDateTime = int

definition TicksPerSecond :: int where
  "TicksPerSecond = 10000000"

definition TicksPerHour :: int where
  "TicksPerHour = 36000000000"

definition UnixEpochTicks :: int where
  "UnixEpochTicks = 621355968000000000"

definition FromHours :: "int \<Rightarrow> int" where
  "FromHours h = h * TicksPerHour"

text \<open>C++ integer division truncates towards zero; HOL's \<open>div\<close> rounds down.\<close>

definition cpp_div :: "int \<Rightarrow> int \<Rightarrow> int" where
  "cpp_div a b = (if 0 \<le> a then a div b else - ((- a) div b))"

definition ToUnixTimestamp :: "FDateTime \<Rightarrow> int" where
  "ToUnixTimestamp t = cpp_div (t - UnixEpochTicks) TicksPerSecond"


section \<open>SessionManager.h: the data model\<close>

datatype ESessionState = CREATED | ACTIVE | ENDED | EXPIRED

record FInteractionEvent =
  EventId :: string
  Timestamp :: FDateTime
  Event_PlayerId :: string
  EventType :: string
  Data :: "(string \<times> string) list"
  Event_TTL :: int

record FPlayerSession =
  SessionId :: string
  PlayerId :: string
  ShardId :: string
  State :: ESessionState
  StartTime :: FDateTime
  EndTime :: FDateTime
  Events :: "FInteractionEvent list"
  Rewards :: "string list"
  TTL :: int

record FPlayerSessionSummary =
  Summary_SessionId :: string
  Summary_PlayerId :: string
  Summary_Rewards :: "string list"
  SessionStartTime :: FDateTime
  SessionEndTime :: FDateTime

record USessionManager =
  ActiveSessions :: "FPlayerSession TMap"


section \<open>SessionManager.cpp: the operations\<close>

text \<open>
  \<open>FGuid::NewGuid().ToString()\<close> and \<open>FDateTime::UtcNow()\<close> are read from the
  environment; each operation that calls them takes the value as an argument
  (\<open>NewGuid\<close>, \<open>UtcNow\<close>). A member function that mutates the manager returns
  the manager it leaves behind.
\<close>

definition CreateSession ::
  "string \<Rightarrow> FDateTime \<Rightarrow> string \<Rightarrow> string \<Rightarrow> USessionManager
     \<Rightarrow> FPlayerSession \<times> USessionManager" where
  "CreateSession NewGuid UtcNow PlayerId' ShardId' M =
     (let NewSession = \<lparr>SessionId = NewGuid, PlayerId = PlayerId', ShardId = ShardId',
                         State = CREATED, StartTime = UtcNow, EndTime = 0,
                         Events = [], Rewards = [], TTL = 0\<rparr>
      in (NewSession,
          M\<lparr>ActiveSessions := TMap_Add (ActiveSessions M) (SessionId NewSession) NewSession\<rparr>))"

definition TransitionState ::
  "string \<Rightarrow> ESessionState \<Rightarrow> ESessionState \<Rightarrow> USessionManager
     \<Rightarrow> bool \<times> USessionManager" where
  "TransitionState SessionId' FromState ToState M =
     (case TMap_Find (ActiveSessions M) SessionId' of
        None \<Rightarrow> (False, M)
      | Some Session \<Rightarrow>
          if State Session \<noteq> FromState then (False, M)
          else (True,
                M\<lparr>ActiveSessions :=
                    TMap_Add (ActiveSessions M) SessionId' (Session\<lparr>State := ToState\<rparr>)\<rparr>))"

definition StartSession :: "string \<Rightarrow> USessionManager \<Rightarrow> bool \<times> USessionManager" where
  "StartSession SessionId' M =
     (let (ok, M') = TransitionState SessionId' CREATED ACTIVE M
      in if ok then (True, M') else (False, M'))"

definition CalculateTTLFromTime :: "FDateTime \<Rightarrow> int" where
  "CalculateTTLFromTime FromTime =
     (let TTLDuration = FromHours 72;
          ExpirationTime = FromTime + TTLDuration;
          UnixTimestamp = ToUnixTimestamp ExpirationTime
      in UnixTimestamp)"

definition CalculateTTL :: "FDateTime \<Rightarrow> int" where
  "CalculateTTL UtcNow = CalculateTTLFromTime UtcNow"

definition EndSession ::
  "FDateTime \<Rightarrow> string \<Rightarrow> USessionManager \<Rightarrow> bool \<times> USessionManager" where
  "EndSession UtcNow SessionId' M =
     (let (ok, M') = TransitionState SessionId' ACTIVE ENDED M
      in if \<not> ok then (False, M')
         else (case TMap_Find (ActiveSessions M') SessionId' of
                 None \<Rightarrow> (True, M')
               | Some Session \<Rightarrow>
                   let S1 = Session\<lparr>EndTime := UtcNow\<rparr>;
                       S2 = S1\<lparr>TTL := CalculateTTLFromTime (EndTime S1)\<rparr>;
                       S3 = S2\<lparr>Events := map (\<lambda>Event. Event\<lparr>Event_TTL := TTL S2\<rparr>) (Events S2)\<rparr>
                   in (True, M'\<lparr>ActiveSessions := TMap_Add (ActiveSessions M') SessionId' S3\<rparr>)))"

definition TrackEvent ::
  "string \<Rightarrow> FDateTime \<Rightarrow> string \<Rightarrow> string \<Rightarrow> (string \<times> string) list
     \<Rightarrow> USessionManager \<Rightarrow> USessionManager" where
  "TrackEvent NewGuid UtcNow SessionId' EventType' EventData M =
     (case TMap_Find (ActiveSessions M) SessionId' of
        None \<Rightarrow> M
      | Some Session \<Rightarrow>
          if State Session \<noteq> ACTIVE then M
          else let Event = \<lparr>EventId = NewGuid, Timestamp = UtcNow,
                            Event_PlayerId = PlayerId Session, EventType = EventType',
                            Data = EventData, Event_TTL = 0\<rparr>
               in M\<lparr>ActiveSessions :=
                     TMap_Add (ActiveSessions M) SessionId'
                       (Session\<lparr>Events := Events Session @ [Event]\<rparr>)\<rparr>)"

definition AddReward :: "string \<Rightarrow> string \<Rightarrow> USessionManager \<Rightarrow> USessionManager" where
  "AddReward SessionId' RewardId' M =
     (case TMap_Find (ActiveSessions M) SessionId' of
        None \<Rightarrow> M
      | Some Session \<Rightarrow>
          if Contains (Rewards Session) RewardId' then M
          else M\<lparr>ActiveSessions :=
                  TMap_Add (ActiveSessions M) SessionId'
                    (Session\<lparr>Rewards := Rewards Session @ [RewardId']\<rparr>)\<rparr>)"

text \<open>
  The default-constructed summary holds empty strings and, in both time fields,
  the time of the call.
\<close>

definition GenerateSessionSummary ::
  "FDateTime \<Rightarrow> string \<Rightarrow> USessionManager \<Rightarrow> FPlayerSessionSummary" where
  "GenerateSessionSummary UtcNow SessionId' M =
     (let Summary = \<lparr>Summary_SessionId = [], Summary_PlayerId = [], Summary_Rewards = [],
                      SessionStartTime = UtcNow, SessionEndTime = UtcNow\<rparr>
      in case TMap_Find (ActiveSessions M) SessionId' of
           None \<Rightarrow> Summary
         | Some Session \<Rightarrow>
             Summary\<lparr>Summary_SessionId := SessionId Session,
                     Summary_PlayerId := PlayerId Session,
                     Summary_Rewards := Rewards Session,
                     SessionStartTime := StartTime Session,
                     SessionEndTime := EndTime Session\<rparr>)"

definition DiscardSessionState :: "string \<Rightarrow> USessionManager \<Rightarrow> USessionManager" where
  "DiscardSessionState SessionId' M =
     (case TMap_Find (ActiveSessions M) SessionId' of
        None \<Rightarrow> M
      | Some Session \<Rightarrow>
          M\<lparr>ActiveSessions :=
              TMap_Add (ActiveSessions M) SessionId' (Session\<lparr>Events := []\<rparr>)\<rparr>)"

definition GetSession :: "string \<Rightarrow> USessionManager \<Rightarrow> FPlayerSession option" where
  "GetSession SessionId' M = TMap_Find (ActiveSessions M) SessionId'"

definition GetSessionState :: "string \<Rightarrow> USessionManager \<Rightarrow> ESessionState" where
  "GetSessionState SessionId' M =
     (case TMap_Find (ActiveSessions M) SessionId' of
        Some Session \<Rightarrow> State Session
      | None \<Rightarrow> EXPIRED)"

text \<open>
  A freshly constructed manager holds no session. The mutating part of the
  public interface, as a datatype of calls, and a run of calls from left to
  right.
\<close>

definition NewSessionManager :: USessionManager where
  "NewSessionManager = \<lparr>ActiveSessions = Map.empty\<rparr>"

datatype RegistryCall =
    CallCreateSession string FDateTime string string
  | CallStartSession string
  | CallEndSession FDateTime string
  | CallTrackEvent string FDateTime string string "(string \<times> string) list"
  | CallAddReward string string
  | CallDiscardSessionState string

fun RegistryStep :: "USessionManager \<Rightarrow> RegistryCall \<Rightarrow> USessionManager" where
  "RegistryStep M (CallCreateSession g t p s) = snd (CreateSession g t p s M)"
| "RegistryStep M (CallStartSession i) = snd (StartSession i M)"
| "RegistryStep M (CallEndSession t i) = snd (EndSession t i M)"
| "RegistryStep M (CallTrackEvent g t i ty d) = TrackEvent g t i ty d M"
| "RegistryStep M (CallAddReward i r) = AddReward i r M"
| "RegistryStep M (CallDiscardSessionState i) = DiscardSessionState i M"

definition RegistryRun :: "USessionManager \<Rightarrow> RegistryCall list \<Rightarrow> USessionManager" where
  "RegistryRun M calls = foldl RegistryStep M calls"

definition StoredStatesLegal :: "USessionManager \<Rightarrow> bool" where
  "StoredStatesLegal M =
     (\<forall>S \<in> ran (ActiveSessions M). State S = CREATED \<or> State S = ACTIVE \<or> State S = ENDED)"

text \<open>Sample data: one player's session, created, started and given two events.\<close>

definition SampleCreated :: USessionManager where
  "SampleCreated = snd (CreateSession ''G-1'' 700000000000000000 ''p1'' ''shard'' NewSessionManager)"

definition SampleActive :: USessionManager where
  "SampleActive =
     TrackEvent ''E-2'' 700000000030000000 ''G-1'' ''jump'' []
       (TrackEvent ''E-1'' 700000000020000000 ''G-1'' ''player_join'' [(''action'', ''player_joined'')]
          (snd (StartSession ''G-1'' SampleCreated)))"

definition SampleEnded :: USessionManager where
  "SampleEnded = snd (EndSession 700000000050000000 ''G-1'' SampleActive)"

definition SampleCreatedSession :: FPlayerSession where
  "SampleCreatedSession =
     \<lparr>SessionId = ''G-1'', PlayerId = ''p1'', ShardId = ''shard'', State = CREATED,
      StartTime = 700000000000000000, EndTime = 0, Events = [], Rewards = [], TTL = 0\<rparr>"

definition SampleActiveSession :: FPlayerSession where
  "SampleActiveSession =
     \<lparr>SessionId = ''G-1'', PlayerId = ''p1'', ShardId = ''shard'', State = ACTIVE,
      StartTime = 700000000000000000, EndTime = 0,
      Events = [\<lparr>EventId = ''E-1'', Timestamp = 700000000020000000, Event_PlayerId = ''p1'',
                 EventType = ''player_join'', Data = [(''action'', ''player_joined'')],
                 Event_TTL = 0\<rparr>,
                \<lparr>EventId = ''E-2'', Timestamp = 700000000030000000, Event_PlayerId = ''p1'',
                 EventType = ''jump'', Data = [], Event_TTL = 0\<rparr>],
      Rewards = [], TTL = 0\<rparr>"

definition SampleEndedSession :: FPlayerSession where
  "SampleEndedSession =
     \<lparr>SessionId = ''G-1'', PlayerId = ''p1'', ShardId = ''shard'', State = ENDED,
      StartTime = 700000000000000000, EndTime = 700000000050000000,
      Events = [\<lparr>EventId = ''E-1'', Timestamp = 700000000020000000, Event_PlayerId = ''p1'',
                 EventType = ''player_join'', Data = [(''action'', ''player_joined'')],
                 Event_TTL = 7864662405\<rparr>,
                \<lparr>EventId = ''E-2'', Timestamp = 700000000030000000, Event_PlayerId = ''p1'',
                 EventType = ''jump'', Data = [], Event_TTL = 7864662405\<rparr>],
      Rewards = [], TTL = 7864662405\<rparr>"


section \<open>RewardSystem.h and RewardSystem.cpp\<close>

record FRewardCatalogEntry =
  Entry_Id :: string
  Entry_Name :: string
  Entry_Description :: string
  Entry_Category :: string

record FRewardCatalog =
  Version :: string
  LastUpdated :: string
  Catalog_Rewards :: "FRewardCatalogEntry list"

record FRewardGrantResult =
  bSuccess :: bool
  ErrorCode :: string
  ErrorMessage :: string
  RewardId :: string

record URewardSystem =
  Catalog :: FRewardCatalog
  PlayerRewards :: "string list TMap"
  bCatalogLoaded :: bool

definition Success :: "string \<Rightarrow> FRewardGrantResult" where
  "Success InRewardId =
     \<lparr>bSuccess = True, ErrorCode = [], ErrorMessage = [], RewardId = InRewardId\<rparr>"

text \<open>\<open>Failure\<close> has a default third argument, the empty string; calls that omit it pass \<open>[]\<close> here.\<close>

definition Failure :: "string \<Rightarrow> string \<Rightarrow> string \<Rightarrow> FRewardGrantResult" where
  "Failure InErrorCode InErrorMessage InRewardId =
     \<lparr>bSuccess = False, ErrorCode = InErrorCode, ErrorMessage = InErrorMessage,
      RewardId = InRewardId\<rparr>"

text \<open>The loop of \<open>IsValidRewardId\<close> over the catalog entries, returning at the first match.\<close>

fun CatalogLoop :: "FRewardCatalogEntry list \<Rightarrow> string \<Rightarrow> bool" where
  "CatalogLoop [] RewardId' = False"
| "CatalogLoop (Entry # Rest) RewardId' =
     (if FString_eq (Entry_Id Entry) RewardId' then True else CatalogLoop Rest RewardId')"

definition IsValidRewardId :: "string \<Rightarrow> URewardSystem \<Rightarrow> bool" where
  "IsValidRewardId RewardId' R =
     (if \<not> bCatalogLoaded R then False
      else CatalogLoop (Catalog_Rewards (Catalog R)) RewardId')"

text \<open>
  \<open>TMap::FindOrAdd\<close> returns the value stored under the key, after storing a
  default-constructed one when the key is absent.
\<close>

definition TMap_FindOrAdd :: "'v TMap \<Rightarrow> string \<Rightarrow> 'v \<Rightarrow> 'v \<times> 'v TMap" where
  "TMap_FindOrAdd m k dflt =
     (case TMap_Find m k of
        Some v \<Rightarrow> (v, m)
      | None \<Rightarrow> (dflt, TMap_Add m k dflt))"

text \<open>The two messages built with \<open>Printf\<close> put the reward id between single quotes.\<close>

definition NotFoundMessage :: "string \<Rightarrow> string" where
  "NotFoundMessage RewardId' =
     ''Reward ID '' @ [CHR 0x27] @ RewardId' @ [CHR 0x27] @ '' not found in catalog''"

definition AlreadyGrantedMessage :: "string \<Rightarrow> string" where
  "AlreadyGrantedMessage RewardId' =
     ''Reward '' @ [CHR 0x27] @ RewardId' @ [CHR 0x27] @ '' already granted''"

definition GrantReward ::
  "string \<Rightarrow> string \<Rightarrow> URewardSystem \<Rightarrow> FRewardGrantResult \<times> URewardSystem" where
  "GrantReward PlayerId' RewardId' R =
     (if PlayerId' = [] then
        (Failure ''INVALID_PLAYER_ID'' ''Player ID is empty'' [], R)
      else if RewardId' = [] then
        (Failure ''INVALID_REWARD_ID'' ''Reward ID is empty'' [], R)
      else if \<not> bCatalogLoaded R then
        (Failure ''REWARD_CATALOG_NOT_FOUND'' ''Rewards catalog is not loaded'' RewardId', R)
      else if \<not> IsValidRewardId RewardId' R then
        (Failure ''INVALID_REWARD_ID'' (NotFoundMessage RewardId') RewardId', R)
      else
        let (Rewards', PR) = TMap_FindOrAdd (PlayerRewards R) PlayerId' [];
            R1 = R\<lparr>PlayerRewards := PR\<rparr>
        in if Contains Rewards' RewardId' then
             (Failure ''REWARD_ALREADY_GRANTED'' (AlreadyGrantedMessage RewardId') RewardId', R1)
           else
             (Success RewardId',
              R1\<lparr>PlayerRewards := TMap_Add PR PlayerId' (Rewards' @ [RewardId'])\<rparr>))"

definition GetPlayerRewards :: "string \<Rightarrow> URewardSystem \<Rightarrow> string list" where
  "GetPlayerRewards PlayerId' R =
     (case TMap_Find (PlayerRewards R) PlayerId' of
        Some Rewards' \<Rightarrow> Rewards'
      | None \<Rightarrow> [])"

definition HasReward :: "string \<Rightarrow> string \<Rightarrow> URewardSystem \<Rightarrow> bool" where
  "HasReward PlayerId' RewardId' R =
     (case TMap_Find (PlayerRewards R) PlayerId' of
        Some Rewards' \<Rightarrow> Contains Rewards' RewardId'
      | None \<Rightarrow> False)"

text \<open>
  A reward system as \<open>Initialize\<close> leaves it: a catalog, the flag saying
  whether loading it succeeded, and no player rewards yet. A run of grants is
  a list of (player id, reward id) pairs, granted from left to right.
\<close>

definition NewRewardSystem :: "FRewardCatalog \<Rightarrow> bool \<Rightarrow> URewardSystem" where
  "NewRewardSystem C loaded = \<lparr>Catalog = C, PlayerRewards = Map.empty, bCatalogLoaded = loaded\<rparr>"

definition GrantRun :: "URewardSystem \<Rightarrow> (string \<times> string) list \<Rightarrow> URewardSystem" where
  "GrantRun R calls = foldl (\<lambda>R' (p, r). snd (GrantReward p r R')) R calls"

definition CountOf :: "string \<Rightarrow> string list \<Rightarrow> nat" where
  "CountOf r xs = length (filter (\<lambda>x. FString_eq x r) xs)"

definition SampleCatalog :: FRewardCatalog where
  "SampleCatalog =
     \<lparr>Version = ''1.0'', LastUpdated = ''2026-01-01'',
      Catalog_Rewards =
        [\<lparr>Entry_Id = ''sword_of_dawn'', Entry_Name = ''Sword of Dawn'',
          Entry_Description = ''A sword'', Entry_Category = ''weapon''\<rparr>,
         \<lparr>Entry_Id = ''shield_basic'', Entry_Name = ''Basic Shield'',
          Entry_Description = ''A shield'', Entry_Category = []\<rparr>]\<rparr>"

definition SampleRewards :: URewardSystem where
  "SampleRewards = NewRewardSystem SampleCatalog True"


definition SampleGranted :: URewardSystem where
  "SampleGranted = snd (GrantReward ''p1'' ''sword_of_dawn'' SampleRewards)"

definition LedgerDistinct :: "URewardSystem \<Rightarrow> bool" where
  "LedgerDistinct R = (\<forall>xs \<in> ran (PlayerRewards R). distinct (map KeyOf xs))"


section \<open>JWTValidator.h and JWTValidator.cpp\<close>

record FJWTClaims =
  Subject :: string
  Issuer :: string
  Audience :: string
  ExpirationTime :: int
  IssuedAt :: int
  TokenUse :: string
  Username :: string
  Groups :: "string list"

record FJWTValidationResult =
  bIsValid :: bool
  JWT_ErrorMessage :: string
  Claims :: FJWTClaims

text \<open>
  The four static strings of \<open>UJWTValidator\<close>, which start out empty and
  change only in \<open>SetCognitoConfig\<close>, are passed to the functions that read
  them.
\<close>

record CognitoConfig =
  CognitoUserPoolId :: string
  CognitoRegion :: string
  CognitoClientId :: string
  CognitoIssuer :: string

definition NoCognitoConfig :: CognitoConfig where
  "NoCognitoConfig =
     \<lparr>CognitoUserPoolId = [], CognitoRegion = [], CognitoClientId = [], CognitoIssuer = []\<rparr>"

definition SetCognitoConfig :: "string \<Rightarrow> string \<Rightarrow> string \<Rightarrow> CognitoConfig" where
  "SetCognitoConfig UserPoolId Region ClientId =
     \<lparr>CognitoUserPoolId = UserPoolId, CognitoRegion = Region, CognitoClientId = ClientId,
      CognitoIssuer = ''https://cognito-idp.'' @ Region @ ''.amazonaws.com/'' @ UserPoolId\<rparr>"

text \<open>
  \<open>FString::ParseIntoArray(OutArray, Delim, InCullEmpty = true)\<close> of the
  engine, for a delimiter of one character: it walks the string, cuts it at
  every delimiter and adds a piece to the array unless the piece is empty and
  \<open>InCullEmpty\<close> is set; an empty string yields an empty array. \<open>ParseToken\<close>
  calls it with the delimiter \<open>"."\<close> and the default \<open>InCullEmpty = true\<close>.
\<close>

fun ParseIntoArrayLoop :: "char \<Rightarrow> bool \<Rightarrow> string \<Rightarrow> string \<Rightarrow> string list" where
  "ParseIntoArrayLoop Delim InCullEmpty Piece [] =
     (if \<not> InCullEmpty \<or> Piece \<noteq> [] then [Piece] else [])"
| "ParseIntoArrayLoop Delim InCullEmpty Piece (c # cs) =
     (if c = Delim then
        (if \<not> InCullEmpty \<or> Piece \<noteq> [] then Piece # ParseIntoArrayLoop Delim InCullEmpty [] cs
         else ParseIntoArrayLoop Delim InCullEmpty [] cs)
      else ParseIntoArrayLoop Delim InCullEmpty (Piece @ [c]) cs)"

definition ParseIntoArray :: "string \<Rightarrow> char \<Rightarrow> bool \<Rightarrow> string list" where
  "ParseIntoArray s Delim InCullEmpty =
     (if s = [] then [] else ParseIntoArrayLoop Delim InCullEmpty [] s)"

definition ParseToken :: "string \<Rightarrow> (string \<times> string \<times> string) option" where
  "ParseToken Token =
     (let Parts = ParseIntoArray Token (CHR ''.'') True
      in if length Parts \<noteq> 3 then None
         else Some (Parts ! 0, Parts ! 1, Parts ! 2))"

text \<open>
  Base64 decoding and JSON parsing are the engine's (\<open>FBase64\<close>,
  \<open>FJsonSerializer\<close>, \<open>FJsonObject\<close>); the validator is modelled for any
  engine, given as a record of the five engine functions it rests on:
  \<^item> \<open>Base64_Decode\<close>: \<open>FBase64::Decode\<close> followed by the conversion of the
    bytes to an \<open>FString\<close>; \<open>None\<close> when \<open>Decode\<close> returns false;
  \<^item> \<open>Json_Deserialize\<close>: \<open>FJsonSerializer::Deserialize\<close>; \<open>None\<close> when it
    fails or the object is not valid;
  \<^item> \<open>TryGetStringField\<close>, \<open>TryGetNumberField\<close> (the \<open>double\<close> overload, the
    number a field holds, as the real number the \<open>double\<close> stands for) and
    \<open>TryGetArrayField\<close>: \<open>None\<close> when the call returns false, in which case the
    output argument keeps its value. An array is given by what
    \<open>TryGetString\<close> answers for each element.
\<close>

record 'j JsonEngine =
  Base64_Decode :: "string \<Rightarrow> string option"
  Json_Deserialize :: "string \<Rightarrow> 'j option"
  TryGetStringField :: "'j \<Rightarrow> string \<Rightarrow> string option"
  TryGetNumberField :: "'j \<Rightarrow> string \<Rightarrow> real option"
  TryGetArrayField :: "'j \<Rightarrow> string \<Rightarrow> string option list option"

text \<open>
  \<open>ParseClaims\<close> reads \<open>exp\<close> and \<open>iat\<close> into \<open>int32\<close> variables, through the
  \<open>int32\<close> overload of \<open>TryGetNumberField\<close>. That overload is the engine's: it
  gets the number as a \<open>double\<close>, returns false unless the number lies between
  \<open>INT_MIN\<close> and \<open>INT_MAX\<close>, and otherwise hands out the number rounded to the
  nearest integer, halves away from zero.
\<close>

definition INT_MIN :: int where
  "INT_MIN = - 2147483648"

definition INT_MAX :: int where
  "INT_MAX = 2147483647"

definition RoundHalfFromZero :: "real \<Rightarrow> int" where
  "RoundHalfFromZero Double = (if 0 \<le> Double then \<lfloor>Double + 1 / 2\<rfloor> else \<lceil>Double - 1 / 2\<rceil>)"

definition TryGetNumberField_int32 :: "'j JsonEngine \<Rightarrow> 'j \<Rightarrow> string \<Rightarrow> int option" where
  "TryGetNumberField_int32 E JsonObject FieldName =
     (case TryGetNumberField E JsonObject FieldName of
        None \<Rightarrow> None
      | Some Double \<Rightarrow>
          if real_of_int INT_MIN \<le> Double \<and> Double \<le> real_of_int INT_MAX
          then Some (RoundHalfFromZero Double)
          else None)"

definition Replace :: "char \<Rightarrow> char \<Rightarrow> string \<Rightarrow> string" where
  "Replace From To s = map (\<lambda>c. if c = From then To else c) s"

definition DecodeBase64URL :: "'j JsonEngine \<Rightarrow> string \<Rightarrow> string option" where
  "DecodeBase64URL E Input =
     (let Base64 = Replace (CHR ''-'') (CHR ''+'') Input;
          Base64 = Replace (CHR ''_'') (CHR ''/'') Base64;
          PaddingNeeded = (4 - (length Base64 mod 4)) mod 4;
          Base64 = Base64 @ replicate PaddingNeeded (CHR ''='')
      in Base64_Decode E Base64)"

text \<open>
  \<open>ParseClaims\<close> returns false before it touches \<open>OutClaims\<close>, or true after
  it has assigned the fields the payload has: \<open>None\<close> is the first case,
  \<open>Some\<close> of the claims left in \<open>OutClaims\<close> the second. A field whose
  \<open>TryGet\<close> call fails keeps the value \<open>OutClaims\<close> came with; the groups found
  are added behind the ones already there.
\<close>

definition ParseClaims :: "'j JsonEngine \<Rightarrow> string \<Rightarrow> FJWTClaims \<Rightarrow> FJWTClaims option" where
  "ParseClaims E PayloadJson OutClaims =
     (case DecodeBase64URL E PayloadJson of
        None \<Rightarrow> None
      | Some DecodedPayload \<Rightarrow>
          (case Json_Deserialize E DecodedPayload of
             None \<Rightarrow> None
           | Some JsonObject \<Rightarrow>
               Some (OutClaims
                 \<lparr>Subject := (case TryGetStringField E JsonObject ''sub'' of
                                Some s \<Rightarrow> s | None \<Rightarrow> Subject OutClaims),
                  Issuer := (case TryGetStringField E JsonObject ''iss'' of
                               Some s \<Rightarrow> s | None \<Rightarrow> Issuer OutClaims),
                  Audience := (case TryGetStringField E JsonObject ''aud'' of
                                 Some s \<Rightarrow> s | None \<Rightarrow> Audience OutClaims),
                  TokenUse := (case TryGetStringField E JsonObject ''token_use'' of
                                 Some s \<Rightarrow> s | None \<Rightarrow> TokenUse OutClaims),
                  Username := (case TryGetStringField E JsonObject ''cognito:username'' of
                                 Some s \<Rightarrow> s | None \<Rightarrow> Username OutClaims),
                  ExpirationTime := (case TryGetNumberField_int32 E JsonObject ''exp'' of
                                       Some ExpInt \<Rightarrow> ExpInt | None \<Rightarrow> ExpirationTime OutClaims),
                  IssuedAt := (case TryGetNumberField_int32 E JsonObject ''iat'' of
                                 Some IatInt \<Rightarrow> IatInt | None \<Rightarrow> IssuedAt OutClaims),
                  Groups := (case TryGetArrayField E JsonObject ''cognito:groups'' of
                               Some GroupsArray \<Rightarrow>
                                 Groups OutClaims @ List.map_filter (\<lambda>g. g) GroupsArray
                             | None \<Rightarrow> Groups OutClaims)\<rparr>)))"

definition IsTokenExpired :: "FDateTime \<Rightarrow> int \<Rightarrow> bool" where
  "IsTokenExpired UtcNow ExpirationTime' =
     (let CurrentTime = ToUnixTimestamp UtcNow;
          bExpired = (CurrentTime \<ge> ExpirationTime')
      in bExpired)"

definition VerifySignature :: "string \<Rightarrow> string \<Rightarrow> string \<Rightarrow> bool" where
  "VerifySignature Header Payload Signature = True"

definition ValidateClaims :: "CognitoConfig \<Rightarrow> FJWTClaims \<Rightarrow> string \<Rightarrow> bool \<times> string" where
  "ValidateClaims cfg Claims' OutErrorMessage =
     (if CognitoIssuer cfg \<noteq> [] \<and> \<not> FString_eq (Issuer Claims') (CognitoIssuer cfg) then
        (False, ''Invalid issuer: expected '' @ CognitoIssuer cfg @ '', got '' @ Issuer Claims')
      else if CognitoClientId cfg \<noteq> [] \<and> \<not> FString_eq (Audience Claims') (CognitoClientId cfg) then
        (False, ''Invalid audience: expected '' @ CognitoClientId cfg @ '', got '' @ Audience Claims')
      else if \<not> FString_eq (TokenUse Claims') ''access'' \<and> \<not> FString_eq (TokenUse Claims') ''id'' then
        (False, ''Invalid token_use: '' @ TokenUse Claims')
      else if Subject Claims' = [] then
        (False, ''Missing subject (player ID)'')
      else (True, OutErrorMessage))"

definition ValidateToken ::
  "CognitoConfig \<Rightarrow> 'j JsonEngine \<Rightarrow> FDateTime \<Rightarrow> string \<Rightarrow> FJWTValidationResult
     \<Rightarrow> bool \<times> FJWTValidationResult" where
  "ValidateToken cfg E UtcNow Token OutResult =
     (let R = OutResult\<lparr>bIsValid := False, JWT_ErrorMessage := []\<rparr>
      in if Token = [] then (False, R\<lparr>JWT_ErrorMessage := ''Token is empty''\<rparr>)
         else
           (case ParseToken Token of
              None \<Rightarrow> (False, R\<lparr>JWT_ErrorMessage := ''Invalid token format''\<rparr>)
            | Some (Header, Payload, Signature) \<Rightarrow>
                (case ParseClaims E Payload (Claims R) of
                   None \<Rightarrow> (False, R\<lparr>JWT_ErrorMessage := ''Failed to parse token claims''\<rparr>)
                 | Some C \<Rightarrow>
                     let R = R\<lparr>Claims := C\<rparr>
                     in if IsTokenExpired UtcNow (ExpirationTime (Claims R)) then
                          (False, R\<lparr>JWT_ErrorMessage := ''Token has expired''\<rparr>)
                        else
                          let (ok, msg) = ValidateClaims cfg (Claims R) (JWT_ErrorMessage R);
                              R = R\<lparr>JWT_ErrorMessage := msg\<rparr>
                          in if \<not> ok then (False, R)
                             else if CognitoUserPoolId cfg \<noteq> []
                                     \<and> \<not> VerifySignature Header Payload Signature then
                               (False, R\<lparr>JWT_ErrorMessage := ''Token signature verification failed''\<rparr>)
                             else (True, R\<lparr>bIsValid := True\<rparr>))))"

definition DecodeToken :: "'j JsonEngine \<Rightarrow> string \<Rightarrow> FJWTClaims \<Rightarrow> FJWTClaims option" where
  "DecodeToken E Token OutClaims =
     (case ParseToken Token of
        None \<Rightarrow> None
      | Some (Header, Payload, Signature) \<Rightarrow> ParseClaims E Payload OutClaims)"

text \<open>
  The dot-separated segments of a token in the usual sense, empty ones
  included: what lies before the first dot, between two dots, and after the
  last one. A string with \<open>n\<close> dots has \<open>n + 1\<close> segments.
\<close>

fun Segments :: "string \<Rightarrow> string list" where
  "Segments [] = [[]]"
| "Segments (c # cs) =
     (let rest = Segments cs
      in if c = CHR ''.'' then [] # rest else (c # hd rest) # tl rest)"

definition NonEmptySegments :: "string \<Rightarrow> string list" where
  "NonEmptySegments Token = filter (\<lambda>s. s \<noteq> []) (Segments Token)"

text \<open>
  The base64url alphabet, and the alphabet of plain base64 with its padding
  character, for saying what a segment is made of.
\<close>

definition Base64URLAlphabet :: string where
  "Base64URLAlphabet = ''ABCDEFGHIJKLMNOPQRSTUVWXYZabcdefghijklmnopqrstuvwxyz0123456789-_''"

definition Base64Alphabet :: string where
  "Base64Alphabet = ''ABCDEFGHIJKLMNOPQRSTUVWXYZabcdefghijklmnopqrstuvwxyz0123456789+/=''"

definition IsBase64URL :: "string \<Rightarrow> bool" where
  "IsBase64URL s = list_all (\<lambda>c. c \<in> set Base64URLAlphabet) s"

text \<open>
  Sample data: an engine that knows five payloads, each the base64 text of
  \<open>{"sub":S,"token_use":"access","exp":X}\<close>: with subject \<open>p1\<close> and \<open>exp\<close>
  2000000000, -3000000000, 4102444800 and 1900000000.4, and with subject
  \<open>p1>>\<close>, whose base64 text needs the character \<open>+\<close>, and \<open>exp\<close> 2000000000.
  Then tokens around them, and a clock at Unix time 1900000000.
\<close>

record SampleJsonObject =
  StringFields :: "(string \<times> string) list"
  NumberFields :: "(string \<times> real) list"
  ArrayFields :: "(string \<times> string option list) list"

definition Quoted :: "string \<Rightarrow> string" where
  "Quoted s = [CHR 0x22] @ s @ [CHR 0x22]"

definition PayloadText :: "string \<Rightarrow> string \<Rightarrow> string" where
  "PayloadText SubText ExpText =
     ''{'' @ Quoted ''sub'' @ '':'' @ Quoted SubText @ '','' @ Quoted ''token_use'' @ '':''
       @ Quoted ''access'' @ '','' @ Quoted ''exp'' @ '':'' @ ExpText @ ''}''"

definition PayloadObject :: "string \<Rightarrow> real \<Rightarrow> SampleJsonObject" where
  "PayloadObject SubText ExpValue =
     \<lparr>StringFields = [(''sub'', SubText), (''token_use'', ''access'')],
      NumberFields = [(''exp'', ExpValue)],
      ArrayFields = []\<rparr>"

definition SamplePayload :: string where
  "SamplePayload = ''eyJzdWIiOiJwMSIsInRva2VuX3VzZSI6ImFjY2VzcyIsImV4cCI6MjAwMDAwMDAwMH0''"

definition SamplePayloadText :: string where
  "SamplePayloadText = PayloadText ''p1'' ''2000000000''"

definition SamplePayloadObject :: SampleJsonObject where
  "SamplePayloadObject = PayloadObject ''p1'' 2000000000"

definition NegativeExpPayload :: string where
  "NegativeExpPayload = ''eyJzdWIiOiJwMSIsInRva2VuX3VzZSI6ImFjY2VzcyIsImV4cCI6LTMwMDAwMDAwMDB9''"

definition NegativeExpPayloadText :: string where
  "NegativeExpPayloadText = PayloadText ''p1'' ''-3000000000''"

definition NegativeExpPayloadObject :: SampleJsonObject where
  "NegativeExpPayloadObject = PayloadObject ''p1'' (- 3000000000)"

definition FarExpPayload :: string where
  "FarExpPayload = ''eyJzdWIiOiJwMSIsInRva2VuX3VzZSI6ImFjY2VzcyIsImV4cCI6NDEwMjQ0NDgwMH0''"

definition FarExpPayloadText :: string where
  "FarExpPayloadText = PayloadText ''p1'' ''4102444800''"

definition FarExpPayloadObject :: SampleJsonObject where
  "FarExpPayloadObject = PayloadObject ''p1'' 4102444800"

definition FractionExpPayload :: string where
  "FractionExpPayload = ''eyJzdWIiOiJwMSIsInRva2VuX3VzZSI6ImFjY2VzcyIsImV4cCI6MTkwMDAwMDAwMC40fQ''"

definition FractionExpPayloadText :: string where
  "FractionExpPayloadText = PayloadText ''p1'' ''1900000000.4''"

definition FractionExpPayloadObject :: SampleJsonObject where
  "FractionExpPayloadObject = PayloadObject ''p1'' (19000000004 / 10)"

definition PlusPayload :: string where
  "PlusPayload = ''eyJzdWIiOiJwMT4+IiwidG9rZW5fdXNlIjoiYWNjZXNzIiwiZXhwIjoyMDAwMDAwMDAwfQ''"

definition PlusPayloadText :: string where
  "PlusPayloadText = PayloadText ''p1>>'' ''2000000000''"

definition PlusPayloadObject :: SampleJsonObject where
  "PlusPayloadObject = PayloadObject ''p1>>'' 2000000000"

definition SampleEngine :: "SampleJsonObject JsonEngine" where
  "SampleEngine =
     \<lparr>Base64_Decode =
        map_of [(SamplePayload @ ''='', SamplePayloadText),
                (NegativeExpPayload, NegativeExpPayloadText),
                (FarExpPayload @ ''='', FarExpPayloadText),
                (FractionExpPayload @ ''=='', FractionExpPayloadText),
                (PlusPayload @ ''=='', PlusPayloadText)],
      Json_Deserialize =
        map_of [(SamplePayloadText, SamplePayloadObject),
                (NegativeExpPayloadText, NegativeExpPayloadObject),
                (FarExpPayloadText, FarExpPayloadObject),
                (FractionExpPayloadText, FractionExpPayloadObject),
                (PlusPayloadText, PlusPayloadObject)],
      TryGetStringField = (\<lambda>J k. map_of (StringFields J) k),
      TryGetNumberField = (\<lambda>J k. map_of (NumberFields J) k),
      TryGetArrayField = (\<lambda>J k. map_of (ArrayFields J) k)\<rparr>"

definition SampleToken :: string where
  "SampleToken = ''eyJhbGciOiJub25lIn0'' @ ''.'' @ SamplePayload @ ''.'' @ ''c2ln''"

definition SampleTokenTwoDots :: string where
  "SampleTokenTwoDots = ''eyJhbGciOiJub25lIn0'' @ ''..'' @ SamplePayload @ ''.'' @ ''c2ln''"

definition NegativeExpToken :: string where
  "NegativeExpToken = ''eyJhbGciOiJub25lIn0'' @ ''.'' @ NegativeExpPayload @ ''.'' @ ''c2ln''"

definition FarExpToken :: string where
  "FarExpToken = ''eyJhbGciOiJub25lIn0'' @ ''.'' @ FarExpPayload @ ''.'' @ ''c2ln''"

definition FractionExpToken :: string where
  "FractionExpToken = ''eyJhbGciOiJub25lIn0'' @ ''.'' @ FractionExpPayload @ ''.'' @ ''c2ln''"

definition PlusToken :: string where
  "PlusToken = ''eyJhbGciOiJub25lIn0'' @ ''.'' @ PlusPayload @ ''.'' @ ''c2ln''"

definition DollarToken :: string where
  "DollarToken = ''$$$'' @ ''.'' @ SamplePayload @ ''.'' @ ''???''"

definition SampleNow :: FDateTime where
  "SampleNow = 640355968000000000"

definition SampleExpiryInstant :: FDateTime where
  "SampleExpiryInstant = 641355968000000000"

definition SampleConfig :: CognitoConfig where
  "SampleConfig = SetCognitoConfig ''Pool1'' ''eu-west-1'' ''Client1''"

definition SampleUpperCaseClaims :: FJWTClaims where
  "SampleUpperCaseClaims =
     \<lparr>Subject = ''p1'', Issuer = ''HTTPS://COGNITO-IDP.EU-WEST-1.AMAZONAWS.COM/POOL1'',
      Audience = ''CLIENT1'', ExpirationTime = 2000000000, IssuedAt = 0,
      TokenUse = ''access'', Username = [], Groups = []\<rparr>"

definition EmptyClaims :: FJWTClaims where
  "EmptyClaims =
     \<lparr>Subject = [], Issuer = [], Audience = [], ExpirationTime = 0, IssuedAt = 0,
      TokenUse = [], Username = [], Groups = []\<rparr>"

definition EmptyResult :: FJWTValidationResult where
  "EmptyResult = \<lparr>bIsValid = False, JWT_ErrorMessage = [], Claims = EmptyClaims\<rparr>"

definition SampleClaims :: FJWTClaims where
  "SampleClaims =
     \<lparr>Subject = ''p1'', Issuer = [], Audience = [], ExpirationTime = 2000000000, IssuedAt = 0,
      TokenUse = ''access'', Username = [], Groups = []\<rparr>"

definition PlusClaims :: FJWTClaims where
  "PlusClaims = SampleClaims\<lparr>Subject := ''p1>>''\<rparr>"


section \<open>HMVRGameMode.h and HMVRGameMode.cpp: admission\<close>

text \<open>
  The members of \<open>AHMVRGameMode\<close> that admission reads or writes. A
  \<open>TWeakObjectPtr<APlayerController>\<close> is the index of an object in the engine's
  object table; whether the object it points to still exists is the engine's
  to say, and every function that asks \<open>IsValid()\<close> takes the engine's answer
  as the argument \<open>IsValid\<close>.
\<close>

type_synonym TWeakObjectPtr = nat

record AHMVRGameMode =
  MaxPlayers :: int
  MinPlayers :: int
  ConnectedPlayers :: "TWeakObjectPtr list"
  bGameLiftInitialized :: bool
  bGameLiftProcessReady :: bool
  PlayerSessionMap :: "string TMap"

text \<open>\<open>Printf\<close> with \<open>%d\<close>: the decimal digits of an \<open>int32\<close>, with a minus sign if negative.\<close>

fun Digits :: "nat \<Rightarrow> string" where
  "Digits n =
     (if n < 10 then [''0123456789'' ! n]
      else Digits (n div 10) @ [''0123456789'' ! (n mod 10)])"

declare Digits.simps [simp del]

definition IntToString :: "int \<Rightarrow> string" where
  "IntToString n = (if n < 0 then ''-'' @ Digits (nat (- n)) else Digits (nat n))"

text \<open>The loop of \<open>GetCurrentPlayerCount\<close>, with the counter as accumulator.\<close>

fun CountValid :: "(TWeakObjectPtr \<Rightarrow> bool) \<Rightarrow> TWeakObjectPtr list \<Rightarrow> int \<Rightarrow> int" where
  "CountValid IsValid [] ValidPlayerCount = ValidPlayerCount"
| "CountValid IsValid (PlayerPtr # Rest) ValidPlayerCount =
     CountValid IsValid Rest
       (if IsValid PlayerPtr then ValidPlayerCount + 1 else ValidPlayerCount)"

definition GetCurrentPlayerCount :: "(TWeakObjectPtr \<Rightarrow> bool) \<Rightarrow> AHMVRGameMode \<Rightarrow> int" where
  "GetCurrentPlayerCount IsValid G = CountValid IsValid (ConnectedPlayers G) 0"

definition CanAcceptNewPlayer :: "(TWeakObjectPtr \<Rightarrow> bool) \<Rightarrow> AHMVRGameMode \<Rightarrow> bool" where
  "CanAcceptNewPlayer IsValid G = (GetCurrentPlayerCount IsValid G < MaxPlayers G)"

text \<open>
  \<open>ValidateJWTToken\<close> validates into a local \<open>FJWTValidationResult\<close>, whose
  strings start empty and whose two \<open>int64\<close> members start with whatever the
  stack holds (\<open>Uninit\<close>). It returns its verdict with the values it leaves in
  \<open>OutPlayerId\<close> and \<open>OutErrorMessage\<close>.
\<close>

definition ValidateJWTToken ::
  "CognitoConfig \<Rightarrow> 'j JsonEngine \<Rightarrow> FDateTime \<Rightarrow> int \<times> int \<Rightarrow> string \<Rightarrow> string \<Rightarrow> string
     \<Rightarrow> bool \<times> string \<times> string" where
  "ValidateJWTToken cfg E UtcNow Uninit Token OutPlayerId OutErrorMessage =
     (if Token = [] then (False, OutPlayerId, ''Token is empty'')
      else
        let ValidationResult =
              \<lparr>bIsValid = False, JWT_ErrorMessage = [],
               Claims = \<lparr>Subject = [], Issuer = [], Audience = [],
                         ExpirationTime = fst Uninit, IssuedAt = snd Uninit,
                         TokenUse = [], Username = [], Groups = []\<rparr>\<rparr>;
            (ok, ValidationResult) = ValidateToken cfg E UtcNow Token ValidationResult
        in if \<not> ok then (False, OutPlayerId, JWT_ErrorMessage ValidationResult)
           else
             let OutPlayerId = Subject (Claims ValidationResult)
             in if OutPlayerId = [] then
                  (False, OutPlayerId, ''Token does not contain player ID'')
                else (True, OutPlayerId, OutErrorMessage))"

definition ValidatePlayerSession :: "AHMVRGameMode \<Rightarrow> string \<Rightarrow> string \<Rightarrow> bool \<times> string" where
  "ValidatePlayerSession G PlayerSessionId OutErrorMessage =
     (if PlayerSessionId = [] then (False, ''Player session ID is empty'')
      else if \<not> bGameLiftInitialized G \<or> \<not> bGameLiftProcessReady G then
        (False, ''GameLift not initialized'')
      else (True, OutErrorMessage))"

definition AcceptPlayerSession :: "string \<Rightarrow> string \<Rightarrow> AHMVRGameMode \<Rightarrow> AHMVRGameMode" where
  "AcceptPlayerSession NewGuid PlayerSessionId G =
     (if \<not> bGameLiftInitialized G \<or> \<not> bGameLiftProcessReady G then G
      else G\<lparr>PlayerSessionMap := TMap_Add (PlayerSessionMap G) PlayerSessionId NewGuid\<rparr>)"

text \<open>
  \<open>PreLogin\<close> receives \<open>ErrorMessage\<close> as \<open>Super::PreLogin\<close> left it and returns
  what it leaves there (empty means the connection may proceed), with the
  game mode. \<open>ParseOption\<close> is \<open>UGameplayStatics::ParseOption\<close>, the engine's.
\<close>

definition PreLogin ::
  "CognitoConfig \<Rightarrow> 'j JsonEngine \<Rightarrow> (string \<Rightarrow> string \<Rightarrow> string) \<Rightarrow> FDateTime \<Rightarrow> int \<times> int
     \<Rightarrow> string \<Rightarrow> (TWeakObjectPtr \<Rightarrow> bool) \<Rightarrow> string \<Rightarrow> string \<Rightarrow> AHMVRGameMode
     \<Rightarrow> string \<times> AHMVRGameMode" where
  "PreLogin cfg E ParseOption UtcNow Uninit NewGuid IsValid Options ErrorMessage' G =
     (if \<not> CanAcceptNewPlayer IsValid G then
        (''Server full. Maximum '' @ IntToString (MaxPlayers G) @ '' players allowed.'', G)
      else
        let JWTToken = ParseOption Options ''Token''
        in if JWTToken = [] then (''Authentication failed: No JWT token provided'', G)
           else
             let (ok, PlayerId', ErrorMessage') =
                   ValidateJWTToken cfg E UtcNow Uninit JWTToken [] ErrorMessage'
             in if \<not> ok then (ErrorMessage', G)
                else if bGameLiftInitialized G then
                  let PlayerSessionId = ParseOption Options ''PlayerSessionId''
                  in if PlayerSessionId \<noteq> [] then
                       let (valid, ValidationError) = ValidatePlayerSession G PlayerSessionId []
                       in if \<not> valid then
                            (''GameLift validation failed: '' @ ValidationError, G)
                          else (ErrorMessage', AcceptPlayerSession NewGuid PlayerSessionId G)
                     else (''GameLift player session ID required'', G)
                else (ErrorMessage', G))"

text \<open>
  Sample data: a game mode as its constructor sets it up, with seventeen
  connected-player pointers, of which the third and the fifth point to
  players that are gone;
  and connection options without a token, parsed by an engine stub that
  finds none.
\<close>

definition SampleGameMode :: AHMVRGameMode where
  "SampleGameMode =
     \<lparr>MaxPlayers = 15, MinPlayers = 10,
      ConnectedPlayers = [1, 2, 3, 4, 5, 6, 7, 8, 9, 10, 11, 12, 13, 14, 15, 16, 17],
      bGameLiftInitialized = False, bGameLiftProcessReady = False,
      PlayerSessionMap = Map.empty\<rparr>"

definition SampleIsValid :: "TWeakObjectPtr \<Rightarrow> bool" where
  "SampleIsValid p = (p \<noteq> 3 \<and> p \<noteq> 5)"

definition SampleParseOption :: "string \<Rightarrow> string \<Rightarrow> string" where
  "SampleParseOption Options Key =
     (if Options = ''?Token='' @ SampleToken \<and> Key = ''Token'' then SampleToken else [])"


section \<open>Session registry: the state machine\<close>

lemma TransitionState_result:
  "TransitionState i X Y M =
     (case TMap_Find (ActiveSessions M) i of
        None \<Rightarrow> (False, M)
      | Some S \<Rightarrow> if State S = X
                  then (True, M\<lparr>ActiveSessions := (ActiveSessions M)(KeyOf i \<mapsto> S\<lparr>State := Y\<rparr>)\<rparr>)
                  else (False, M))"
  by (simp add: TransitionState_def TMap_Add_def split: option.split)

lemma StartSession_result:
  "StartSession i M =
     (case TMap_Find (ActiveSessions M) i of
        None \<Rightarrow> (False, M)
      | Some S \<Rightarrow> if State S = CREATED
                  then (True, M\<lparr>ActiveSessions := (ActiveSessions M)(KeyOf i \<mapsto> S\<lparr>State := ACTIVE\<rparr>)\<rparr>)
                  else (False, M))"
  by (simp add: StartSession_def TransitionState_result split: option.split)

lemma EndSession_result:
  "EndSession t i M =
     (case TMap_Find (ActiveSessions M) i of
        None \<Rightarrow> (False, M)
      | Some S \<Rightarrow>
          if State S = ACTIVE
          then (True,
                M\<lparr>ActiveSessions := (ActiveSessions M)(KeyOf i \<mapsto>
                    S\<lparr>State := ENDED, EndTime := t, TTL := CalculateTTLFromTime t,
                      Events := map (\<lambda>E. E\<lparr>Event_TTL := CalculateTTLFromTime t\<rparr>) (Events S)\<rparr>)\<rparr>)
          else (False, M))"
  by (simp add: EndSession_def TransitionState_result TMap_Add_def TMap_Find_def Let_def
           split: option.split)

lemma StoredStatesLegal_upd:
  "StoredStatesLegal M \<Longrightarrow> State S = CREATED \<or> State S = ACTIVE \<or> State S = ENDED \<Longrightarrow>
   StoredStatesLegal (M\<lparr>ActiveSessions := (ActiveSessions M)(k \<mapsto> S)\<rparr>)"
  unfolding StoredStatesLegal_def
  by (auto simp: ran_def split: if_splits)

lemma StoredStatesLegal_find:
  "StoredStatesLegal M \<Longrightarrow> TMap_Find (ActiveSessions M) i = Some S \<Longrightarrow>
   State S = CREATED \<or> State S = ACTIVE \<or> State S = ENDED"
  unfolding StoredStatesLegal_def TMap_Find_def
  by (auto simp: ran_def)

lemma RegistryStep_legal:
  assumes "StoredStatesLegal M"
  shows "StoredStatesLegal (RegistryStep M c)"
proof (cases c)
  case (CallCreateSession g t p s)
  then show ?thesis
    using assms by (simp add: CreateSession_def TMap_Add_def Let_def StoredStatesLegal_upd)
next
  case (CallStartSession i)
  then show ?thesis
    using assms by (simp add: StartSession_result StoredStatesLegal_upd split: option.split)
next
  case (CallEndSession t i)
  then show ?thesis
    using assms by (simp add: EndSession_result StoredStatesLegal_upd split: option.split)
next
  case (CallTrackEvent g t i ty d)
  then show ?thesis
    using assms
    by (auto simp: TrackEvent_def TMap_Add_def Let_def split: option.split
             intro!: StoredStatesLegal_upd dest: StoredStatesLegal_find)
next
  case (CallAddReward i r)
  then show ?thesis
    using assms
    by (auto simp: AddReward_def TMap_Add_def split: option.split
             intro!: StoredStatesLegal_upd dest: StoredStatesLegal_find)
next
  case (CallDiscardSessionState i)
  then show ?thesis
    using assms
    by (auto simp: DiscardSessionState_def TMap_Add_def split: option.split
             intro!: StoredStatesLegal_upd dest: StoredStatesLegal_find)
qed

lemma RegistryRun_legal:
  "StoredStatesLegal M \<Longrightarrow> StoredStatesLegal (RegistryRun M calls)"
  unfolding RegistryRun_def
  by (induction calls arbitrary: M) (simp_all add: RegistryStep_legal)

lemma NewSessionManager_legal: "StoredStatesLegal NewSessionManager"
  by (simp add: StoredStatesLegal_def NewSessionManager_def)

lemma GetSessionState_legal:
  assumes "StoredStatesLegal M"
  shows "GetSessionState j M = EXPIRED \<longleftrightarrow> GetSession j M = None"
proof (cases "TMap_Find (ActiveSessions M) j")
  case None
  then show ?thesis by (simp add: GetSessionState_def GetSession_def)
next
  case (Some S)
  with assms have "State S = CREATED \<or> State S = ACTIVE \<or> State S = ENDED"
    by (rule StoredStatesLegal_find)
  with Some show ?thesis by (auto simp: GetSessionState_def GetSession_def)
qed

lemma KeyOf_G1: "KeyOf ''G-1'' = ''g-1''"
  by (simp add: KeyOf_def ToLower_def)

lemma SampleCreated_value:
  "SampleCreated = \<lparr>ActiveSessions = [''g-1'' \<mapsto> SampleCreatedSession]\<rparr>"
  by (simp add: SampleCreated_def CreateSession_def NewSessionManager_def TMap_Add_def KeyOf_G1
        Let_def SampleCreatedSession_def)

lemma SampleActive_value:
  "SampleActive = \<lparr>ActiveSessions = [''g-1'' \<mapsto> SampleActiveSession]\<rparr>"
  by (simp add: SampleActive_def StartSession_result SampleCreated_value TrackEvent_def
        TMap_Add_def TMap_Find_def KeyOf_G1 Let_def SampleCreatedSession_def
        SampleActiveSession_def)

lemma SampleEnded_value:
  "SampleEnded = \<lparr>ActiveSessions = [''g-1'' \<mapsto> SampleEndedSession]\<rparr>"
  by (simp add: SampleEnded_def EndSession_result SampleActive_value TMap_Find_def KeyOf_G1
        CalculateTTLFromTime_def FromHours_def TicksPerHour_def ToUnixTimestamp_def cpp_div_def
        UnixEpochTicks_def TicksPerSecond_def SampleActiveSession_def SampleEndedSession_def)

lemma GetSession_SampleCreated: "GetSession ''G-1'' SampleCreated = Some SampleCreatedSession"
  by (simp add: GetSession_def TMap_Find_def KeyOf_G1 SampleCreated_value)

lemma GetSession_SampleActive: "GetSession ''G-1'' SampleActive = Some SampleActiveSession"
  by (simp add: GetSession_def TMap_Find_def KeyOf_G1 SampleActive_value)

lemma GetSession_SampleEnded: "GetSession ''G-1'' SampleEnded = Some SampleEndedSession"
  by (simp add: GetSession_def TMap_Find_def KeyOf_G1 SampleEnded_value)

lemma KeyOf_G2: "KeyOf ''G-2'' = ''g-2''"
  by (simp add: KeyOf_def ToLower_def)

subsection \<open>C1: guarded transitions and the reachable states\<close>

text \<open>
  Claim C1. \<open>StartSession\<close> succeeds exactly when the session is stored and its
  state is \<open>CREATED\<close>, and then only its state changes, to \<open>ACTIVE\<close>;
  \<open>EndSession\<close> succeeds exactly when the state is \<open>ACTIVE\<close>, and then the state
  is \<open>ENDED\<close>. A rejected transition returns failure and hands back the manager
  it was given, unchanged. After any run of registry calls on a fresh manager
  every stored session is in one of \<open>CREATED\<close>, \<open>ACTIVE\<close>, \<open>ENDED\<close>; the fourth
  enumerator, \<open>EXPIRED\<close>, is what \<open>GetSessionState\<close> answers for an id that is not
  stored, and only then.
\<close>

theorem session_state_machine_safety:
  "(fst (StartSession i M) \<longleftrightarrow> (\<exists>S. GetSession i M = Some S \<and> State S = CREATED))
   \<and> (\<forall>S. GetSession i M = Some S \<and> State S = CREATED \<longrightarrow>
          snd (StartSession i M) =
            M\<lparr>ActiveSessions := (ActiveSessions M)(KeyOf i \<mapsto> S\<lparr>State := ACTIVE\<rparr>)\<rparr>
          \<and> GetSessionState i (snd (StartSession i M)) = ACTIVE)
   \<and> (\<not> fst (StartSession i M) \<longrightarrow> snd (StartSession i M) = M)
   \<and> (fst (EndSession t i M) \<longleftrightarrow> (\<exists>S. GetSession i M = Some S \<and> State S = ACTIVE))
   \<and> (fst (EndSession t i M) \<longrightarrow> GetSessionState i (snd (EndSession t i M)) = ENDED)
   \<and> (\<not> fst (EndSession t i M) \<longrightarrow> snd (EndSession t i M) = M)
   \<and> (\<forall>S. GetSession j (RegistryRun NewSessionManager calls) = Some S \<longrightarrow>
          State S = CREATED \<or> State S = ACTIVE \<or> State S = ENDED)
   \<and> (GetSessionState j (RegistryRun NewSessionManager calls) = EXPIRED
        \<longleftrightarrow> GetSession j (RegistryRun NewSessionManager calls) = None)"
proof -
  have start_iff:
    "fst (StartSession i M) \<longleftrightarrow> (\<exists>S. GetSession i M = Some S \<and> State S = CREATED)"
    by (simp add: StartSession_result GetSession_def split: option.split)
  have start_ok:
    "\<forall>S. GetSession i M = Some S \<and> State S = CREATED \<longrightarrow>
          snd (StartSession i M) =
            M\<lparr>ActiveSessions := (ActiveSessions M)(KeyOf i \<mapsto> S\<lparr>State := ACTIVE\<rparr>)\<rparr>
          \<and> GetSessionState i (snd (StartSession i M)) = ACTIVE"
    by (simp add: StartSession_result GetSession_def GetSessionState_def TMap_Find_def)
  have start_rej: "\<not> fst (StartSession i M) \<longrightarrow> snd (StartSession i M) = M"
    by (simp add: StartSession_result split: option.split)
  have end_iff:
    "fst (EndSession t i M) \<longleftrightarrow> (\<exists>S. GetSession i M = Some S \<and> State S = ACTIVE)"
    by (simp add: EndSession_result GetSession_def split: option.split)
  have end_ok: "fst (EndSession t i M) \<longrightarrow> GetSessionState i (snd (EndSession t i M)) = ENDED"
    by (simp add: EndSession_result GetSessionState_def TMap_Find_def split: option.split)
  have end_rej: "\<not> fst (EndSession t i M) \<longrightarrow> snd (EndSession t i M) = M"
    by (simp add: EndSession_result split: option.split)
  have legal: "StoredStatesLegal (RegistryRun NewSessionManager calls)"
    by (rule RegistryRun_legal [OF NewSessionManager_legal])
  have states: "\<forall>S. GetSession j (RegistryRun NewSessionManager calls) = Some S \<longrightarrow>
          State S = CREATED \<or> State S = ACTIVE \<or> State S = ENDED"
    using StoredStatesLegal_find [OF legal, of j] by (simp add: GetSession_def)
  from start_iff start_ok start_rej end_iff end_ok end_rej states
    GetSessionState_legal [OF legal, of j]
  show ?thesis by blast
qed

theorem session_state_machine_safety_witness:
  "GetSession ''G-1'' SampleCreated = Some SampleCreatedSession
   \<and> State SampleCreatedSession = CREATED
   \<and> fst (StartSession ''G-1'' SampleCreated)
   \<and> GetSessionState ''G-1'' (snd (StartSession ''G-1'' SampleCreated)) = ACTIVE
   \<and> \<not> fst (EndSession 5 ''G-1'' SampleCreated)
   \<and> snd (EndSession 5 ''G-1'' SampleCreated) = SampleCreated
   \<and> GetSession ''G-1'' SampleActive = Some SampleActiveSession
   \<and> State SampleActiveSession = ACTIVE
   \<and> fst (EndSession 5 ''G-1'' SampleActive)
   \<and> GetSessionState ''G-1'' (snd (EndSession 5 ''G-1'' SampleActive)) = ENDED
   \<and> \<not> fst (StartSession ''G-1'' SampleActive)
   \<and> snd (StartSession ''G-1'' SampleActive) = SampleActive
   \<and> GetSession ''G-1''
        (RegistryRun NewSessionManager
           [CallCreateSession ''G-1'' 700000000000000000 ''p1'' ''shard'', CallEndSession 5 ''G-1''])
        = Some SampleCreatedSession
   \<and> GetSessionState ''G-2''
        (RegistryRun NewSessionManager
           [CallCreateSession ''G-1'' 700000000000000000 ''p1'' ''shard'', CallEndSession 5 ''G-1''])
        = EXPIRED"
proof -
  let ?calls = "[CallCreateSession ''G-1'' 700000000000000000 ''p1'' ''shard'',
                 CallEndSession 5 ''G-1'']"
  have c: "GetSession ''G-1'' SampleCreated = Some SampleCreatedSession"
          "State SampleCreatedSession = CREATED"
    by (simp_all add: GetSession_SampleCreated SampleCreatedSession_def)
  have a: "GetSession ''G-1'' SampleActive = Some SampleActiveSession"
          "State SampleActiveSession = ACTIVE"
    by (simp_all add: GetSession_SampleActive SampleActiveSession_def)
  note s1 = session_state_machine_safety [of "''G-1''" SampleCreated 5 "''G-2''" ?calls]
  note s2 = session_state_machine_safety [of "''G-1''" SampleActive 5 "''G-1''" ?calls]
  have 1: "fst (StartSession ''G-1'' SampleCreated)" using s1 c by auto
  have 2: "GetSessionState ''G-1'' (snd (StartSession ''G-1'' SampleCreated)) = ACTIVE"
    using s1 c by auto
  have 3: "\<not> fst (EndSession 5 ''G-1'' SampleCreated)" using s1 c by auto
  have 4: "snd (EndSession 5 ''G-1'' SampleCreated) = SampleCreated" using s1 3 by blast
  have 5: "fst (EndSession 5 ''G-1'' SampleActive)" using s2 a by auto
  have 6: "GetSessionState ''G-1'' (snd (EndSession 5 ''G-1'' SampleActive)) = ENDED"
    using s2 5 by blast
  have 7: "\<not> fst (StartSession ''G-1'' SampleActive)" using s2 a by auto
  have 8: "snd (StartSession ''G-1'' SampleActive) = SampleActive" using s2 7 by blast
  have run: "RegistryRun NewSessionManager ?calls = SampleCreated"
    by (simp add: RegistryRun_def SampleCreated_def [symmetric] 4)
  have 9: "GetSession ''G-1'' (RegistryRun NewSessionManager ?calls) = Some SampleCreatedSession"
    by (simp add: run c)
  have "GetSession ''G-2'' (RegistryRun NewSessionManager ?calls) = None"
    by (simp add: run GetSession_def TMap_Find_def KeyOf_G2 SampleCreated_value)
  then have 10: "GetSessionState ''G-2'' (RegistryRun NewSessionManager ?calls) = EXPIRED"
    using s1 by blast
  from c 1 2 3 4 a 5 6 7 8 9 10 show ?thesis by blast
qed

lemma ToUnixTimestamp_plus_72h:
  assumes "UnixEpochTicks \<le> T"
  shows "ToUnixTimestamp (T + FromHours 72) = ToUnixTimestamp T + 72 * 3600"
proof -
  define d where "d = T - UnixEpochTicks"
  have d: "0 \<le> d" using assms by (simp add: d_def)
  have "T + FromHours 72 - UnixEpochTicks = d + 259200 * TicksPerSecond"
    by (simp add: d_def FromHours_def TicksPerHour_def TicksPerSecond_def)
  then have "ToUnixTimestamp (T + FromHours 72) = cpp_div (d + 259200 * TicksPerSecond) TicksPerSecond"
    by (simp add: ToUnixTimestamp_def)
  also have "\<dots> = (d + 259200 * TicksPerSecond) div TicksPerSecond"
    using d by (simp add: cpp_div_def TicksPerSecond_def)
  also have "\<dots> = d div TicksPerSecond + 259200"
    by (simp add: TicksPerSecond_def)
  also have "\<dots> = ToUnixTimestamp T + 72 * 3600"
    using d by (simp add: ToUnixTimestamp_def cpp_div_def d_def)
  finally show ?thesis .
qed

subsection \<open>C4: the retention marker stamped by EndSession\<close>

text \<open>
  Claim C4. For a stored session in state \<open>ACTIVE\<close>, \<open>EndSession\<close> at time \<open>T\<close>
  succeeds, stamps \<open>EndTime = T\<close>, and sets the session's \<open>TTL\<close> to the Unix
  timestamp of \<open>T\<close> plus 72 hours; every event recorded before carries exactly
  that \<open>TTL\<close> afterwards and is otherwise unchanged, and nothing else of the
  session changes but its state. For every \<open>T\<close> at or after the Unix epoch the
  stamped value is the Unix timestamp of \<open>T\<close> plus \<open>72 * 3600\<close> seconds.
\<close>

theorem EndSession_TTL_correct:
  assumes "GetSession i M = Some S" and "State S = ACTIVE"
  shows "fst (EndSession T i M)
     \<and> GetSession i (snd (EndSession T i M)) =
         Some (S\<lparr>State := ENDED, EndTime := T,
                 Events := map (\<lambda>E. E\<lparr>Event_TTL := ToUnixTimestamp (T + FromHours 72)\<rparr>) (Events S),
                 TTL := ToUnixTimestamp (T + FromHours 72)\<rparr>)
     \<and> list_all (\<lambda>E. Event_TTL E = ToUnixTimestamp (T + FromHours 72))
          (Events (the (GetSession i (snd (EndSession T i M)))))
     \<and> length (Events (the (GetSession i (snd (EndSession T i M))))) = length (Events S)
     \<and> (UnixEpochTicks \<le> T \<longrightarrow>
          TTL (the (GetSession i (snd (EndSession T i M)))) = ToUnixTimestamp T + 72 * 3600)"
proof -
  let ?ttl = "ToUnixTimestamp (T + FromHours 72)"
  have ttl: "CalculateTTLFromTime T = ?ttl"
    by (simp add: CalculateTTLFromTime_def)
  from assms have find: "TMap_Find (ActiveSessions M) i = Some S"
    by (simp add: GetSession_def)
  have res: "EndSession T i M =
      (True, M\<lparr>ActiveSessions := (ActiveSessions M)(KeyOf i \<mapsto>
          S\<lparr>State := ENDED, EndTime := T, TTL := ?ttl,
            Events := map (\<lambda>E. E\<lparr>Event_TTL := ?ttl\<rparr>) (Events S)\<rparr>)\<rparr>)"
    using find assms(2) by (simp add: EndSession_result ttl)
  have get: "GetSession i (snd (EndSession T i M)) =
         Some (S\<lparr>State := ENDED, EndTime := T,
                 Events := map (\<lambda>E. E\<lparr>Event_TTL := ?ttl\<rparr>) (Events S), TTL := ?ttl\<rparr>)"
    by (simp add: res GetSession_def TMap_Find_def)
  have all: "list_all (\<lambda>E. Event_TTL E = ?ttl)
          (Events (the (GetSession i (snd (EndSession T i M)))))"
    by (simp add: get list_all_iff)
  have len: "length (Events (the (GetSession i (snd (EndSession T i M))))) = length (Events S)"
    by (simp add: get)
  have unix: "UnixEpochTicks \<le> T \<longrightarrow>
          TTL (the (GetSession i (snd (EndSession T i M)))) = ToUnixTimestamp T + 72 * 3600"
    by (simp add: get ToUnixTimestamp_plus_72h)
  have ok: "fst (EndSession T i M)"
    by (simp add: res)
  from ok get all len unix show ?thesis by blast
qed

theorem EndSession_TTL_correct_witness:
  "GetSession ''G-1'' SampleActive = Some SampleActiveSession
   \<and> State SampleActiveSession = ACTIVE
   \<and> map Event_TTL (Events SampleActiveSession) = [0, 0]
   \<and> UnixEpochTicks \<le> 700000000050000000
   \<and> fst (EndSession 700000000050000000 ''G-1'' SampleActive)
   \<and> GetSession ''G-1'' (snd (EndSession 700000000050000000 ''G-1'' SampleActive))
        = Some SampleEndedSession
   \<and> TTL SampleEndedSession = ToUnixTimestamp 700000000050000000 + 72 * 3600
   \<and> map Event_TTL (Events SampleEndedSession) = [TTL SampleEndedSession, TTL SampleEndedSession]"
proof -
  have g: "GetSession ''G-1'' SampleActive = Some SampleActiveSession"
    by (rule GetSession_SampleActive)
  have a: "State SampleActiveSession = ACTIVE"
    by (simp add: SampleActiveSession_def)
  have o: "map Event_TTL (Events SampleActiveSession) = [0, 0]"
    by (simp add: SampleActiveSession_def)
  have e: "UnixEpochTicks \<le> 700000000050000000"
    by (simp add: UnixEpochTicks_def)
  have v: "ToUnixTimestamp (700000000050000000 + FromHours 72) = 7864662405"
    by (simp add: ToUnixTimestamp_def cpp_div_def UnixEpochTicks_def TicksPerSecond_def
          FromHours_def TicksPerHour_def)
  have u: "TTL SampleEndedSession = ToUnixTimestamp 700000000050000000 + 72 * 3600"
    by (simp add: SampleEndedSession_def ToUnixTimestamp_def cpp_div_def UnixEpochTicks_def
          TicksPerSecond_def)
  have m: "map Event_TTL (Events SampleEndedSession) = [TTL SampleEndedSession, TTL SampleEndedSession]"
    by (simp add: SampleEndedSession_def)
  note t = EndSession_TTL_correct [OF g a, of 700000000050000000]
  have 1: "fst (EndSession 700000000050000000 ''G-1'' SampleActive)"
    using t by blast
  have "GetSession ''G-1'' (snd (EndSession 700000000050000000 ''G-1'' SampleActive)) =
          Some (SampleActiveSession\<lparr>State := ENDED, EndTime := 700000000050000000,
                 Events := map (\<lambda>E. E\<lparr>Event_TTL := ToUnixTimestamp (700000000050000000 + FromHours 72)\<rparr>)
                             (Events SampleActiveSession),
                 TTL := ToUnixTimestamp (700000000050000000 + FromHours 72)\<rparr>)"
    using t by blast
  then have 2: "GetSession ''G-1'' (snd (EndSession 700000000050000000 ''G-1'' SampleActive))
        = Some SampleEndedSession"
    by (simp add: v SampleActiveSession_def SampleEndedSession_def)
  from g a o e 1 2 u m show ?thesis by blast
qed

subsection \<open>C8: what a session that is not ACTIVE still accepts\<close>

text \<open>
  Claim C8 says that both \<open>TrackEvent\<close> and \<open>AddReward\<close> leave a session that is
  not \<open>ACTIVE\<close> unchanged. \<open>TrackEvent\<close> does. \<open>AddReward\<close> never reads the
  state: on the sample session, still \<open>CREATED\<close>, and on the same session after
  it has \<open>ENDED\<close>, it appends the reward.
\<close>

theorem AddReward_not_active_counterexample:
  "GetSessionState ''G-1'' SampleCreated = CREATED
   \<and> map_option Rewards (GetSession ''G-1'' SampleCreated) = Some []
   \<and> map_option Rewards (GetSession ''G-1'' (AddReward ''G-1'' ''sword_of_dawn'' SampleCreated))
        = Some [''sword_of_dawn'']
   \<and> GetSessionState ''G-1'' SampleEnded = ENDED
   \<and> map_option Rewards (GetSession ''G-1'' SampleEnded) = Some []
   \<and> map_option Rewards (GetSession ''G-1'' (AddReward ''G-1'' ''sword_of_dawn'' SampleEnded))
        = Some [''sword_of_dawn'']"
  by (simp add: GetSessionState_def GetSession_def AddReward_def Contains_def
        TMap_Find_def TMap_Add_def KeyOf_G1 SampleCreated_value SampleEnded_value
        SampleCreatedSession_def SampleEndedSession_def)

text \<open>
  Claim C8 as amended. \<open>TrackEvent\<close> is a no-op for every session id whose state
  is not \<open>ACTIVE\<close> (a missing session included). \<open>AddReward\<close> is a no-op when
  the session is missing or already holds the reward id (compared as the
  engine compares strings); otherwise, in whatever state the session is, it
  appends the reward id to the session's rewards and changes nothing else.
\<close>

theorem TrackEvent_AddReward_frame:
  "(GetSessionState i M \<noteq> ACTIVE \<longrightarrow> TrackEvent g t i ty d M = M)
   \<and> (GetSession i M = None \<longrightarrow> AddReward i r M = M)
   \<and> (\<forall>S. GetSession i M = Some S \<and> Contains (Rewards S) r \<longrightarrow> AddReward i r M = M)
   \<and> (\<forall>S. GetSession i M = Some S \<and> \<not> Contains (Rewards S) r \<longrightarrow>
         AddReward i r M =
           M\<lparr>ActiveSessions := (ActiveSessions M)(KeyOf i \<mapsto> S\<lparr>Rewards := Rewards S @ [r]\<rparr>)\<rparr>)"
  by (auto simp: GetSessionState_def GetSession_def TrackEvent_def AddReward_def TMap_Add_def
           split: option.splits)

theorem TrackEvent_AddReward_frame_witness:
  "GetSessionState ''G-1'' SampleEnded \<noteq> ACTIVE
   \<and> TrackEvent ''E-3'' 9 ''G-1'' ''jump'' [] SampleEnded = SampleEnded
   \<and> GetSession ''G-2'' SampleEnded = None
   \<and> AddReward ''G-2'' ''sword_of_dawn'' SampleEnded = SampleEnded
   \<and> GetSession ''G-1'' SampleEnded = Some SampleEndedSession
   \<and> \<not> Contains (Rewards SampleEndedSession) ''sword_of_dawn''
   \<and> GetSession ''G-1'' (AddReward ''G-1'' ''sword_of_dawn'' SampleEnded)
        = Some (SampleEndedSession\<lparr>Rewards := [''sword_of_dawn'']\<rparr>)
   \<and> Contains [''sword_of_dawn''] ''Sword_Of_Dawn''
   \<and> AddReward ''G-1'' ''Sword_Of_Dawn'' (AddReward ''G-1'' ''sword_of_dawn'' SampleEnded)
        = AddReward ''G-1'' ''sword_of_dawn'' SampleEnded"
proof -
  let ?M1 = "AddReward ''G-1'' ''sword_of_dawn'' SampleEnded"
  let ?S1 = "SampleEndedSession\<lparr>Rewards := [''sword_of_dawn'']\<rparr>"
  have s: "GetSessionState ''G-1'' SampleEnded \<noteq> ACTIVE"
    by (simp add: GetSessionState_def TMap_Find_def KeyOf_G1 SampleEnded_value
          SampleEndedSession_def)
  have n: "GetSession ''G-2'' SampleEnded = None"
    by (simp add: GetSession_def TMap_Find_def KeyOf_G2 SampleEnded_value)
  have g: "GetSession ''G-1'' SampleEnded = Some SampleEndedSession"
    by (rule GetSession_SampleEnded)
  have r: "Rewards SampleEndedSession = []"
    by (simp add: SampleEndedSession_def)
  have c: "\<not> Contains (Rewards SampleEndedSession) ''sword_of_dawn''"
    by (simp add: r Contains_def)
  note f = TrackEvent_AddReward_frame
             [of "''G-1''" SampleEnded "''E-3''" 9 "''jump''" "[]" "''sword_of_dawn''"]
  note f2 = TrackEvent_AddReward_frame
             [of "''G-2''" SampleEnded "''E-3''" 9 "''jump''" "[]" "''sword_of_dawn''"]
  note f3 = TrackEvent_AddReward_frame
             [of "''G-1''" ?M1 "''E-3''" 9 "''jump''" "[]" "''Sword_Of_Dawn''"]
  have 1: "TrackEvent ''E-3'' 9 ''G-1'' ''jump'' [] SampleEnded = SampleEnded"
    using f s by blast
  have 2: "AddReward ''G-2'' ''sword_of_dawn'' SampleEnded = SampleEnded"
    using f2 n by blast
  have 3: "?M1 = SampleEnded\<lparr>ActiveSessions := (ActiveSessions SampleEnded)(KeyOf ''G-1'' \<mapsto>
               SampleEndedSession\<lparr>Rewards := Rewards SampleEndedSession @ [''sword_of_dawn'']\<rparr>)\<rparr>"
    using f g c by blast
  have 4: "GetSession ''G-1'' ?M1 = Some ?S1"
    by (subst 3) (simp add: GetSession_def TMap_Find_def r)
  have 5: "Contains [''sword_of_dawn''] ''Sword_Of_Dawn''"
    by (simp add: Contains_def FString_eq_def ToLower_def)
  then have c5: "Contains (Rewards ?S1) ''Sword_Of_Dawn''"
    by simp
  have 6: "AddReward ''G-1'' ''Sword_Of_Dawn'' ?M1 = ?M1"
    using f3 4 c5 by blast
  from s 1 n 2 g c 4 5 6 show ?thesis by blast
qed


section \<open>Reward ledger\<close>

lemma CatalogLoop_iff:
  "CatalogLoop es r \<longleftrightarrow> (\<exists>e \<in> set es. FString_eq (Entry_Id e) r)"
  by (induction es) auto

lemma Contains_iff: "Contains xs r \<longleftrightarrow> (\<exists>x \<in> set xs. FString_eq x r)"
  by (simp add: Contains_def list_ex_iff)

lemma HasReward_iff: "HasReward p r R \<longleftrightarrow> Contains (GetPlayerRewards p R) r"
  by (simp add: HasReward_def GetPlayerRewards_def Contains_def split: option.split)

lemma GrantReward_held:
  assumes "p \<noteq> []" "r \<noteq> []" "bCatalogLoaded R" "IsValidRewardId r R" "HasReward p r R"
  shows "GrantReward p r R = (Failure ''REWARD_ALREADY_GRANTED'' (AlreadyGrantedMessage r) r, R)"
  using assms
  by (auto simp: GrantReward_def HasReward_def TMap_FindOrAdd_def Contains_def
           split: option.splits)

lemma GrantReward_fresh:
  assumes "p \<noteq> []" "r \<noteq> []" "bCatalogLoaded R" "IsValidRewardId r R" "\<not> HasReward p r R"
  shows "GrantReward p r R =
           (Success r, R\<lparr>PlayerRewards := (PlayerRewards R)(KeyOf p \<mapsto> GetPlayerRewards p R @ [r])\<rparr>)"
  using assms
  by (auto simp: GrantReward_def HasReward_def GetPlayerRewards_def TMap_FindOrAdd_def
                 TMap_Add_def TMap_Find_def Contains_def
           split: option.splits)

lemma messages_differ: "NotFoundMessage r \<noteq> ''Reward ID is empty''"
  by (simp add: NotFoundMessage_def)

lemma GrantReward_cases:
  "GrantReward p r R =
     (if p = [] then (Failure ''INVALID_PLAYER_ID'' ''Player ID is empty'' [], R)
      else if r = [] then (Failure ''INVALID_REWARD_ID'' ''Reward ID is empty'' [], R)
      else if \<not> bCatalogLoaded R then
        (Failure ''REWARD_CATALOG_NOT_FOUND'' ''Rewards catalog is not loaded'' r, R)
      else if \<not> IsValidRewardId r R then
        (Failure ''INVALID_REWARD_ID'' (NotFoundMessage r) r, R)
      else if HasReward p r R then
        (Failure ''REWARD_ALREADY_GRANTED'' (AlreadyGrantedMessage r) r, R)
      else (Success r,
            R\<lparr>PlayerRewards := (PlayerRewards R)(KeyOf p \<mapsto> GetPlayerRewards p R @ [r])\<rparr>))"
proof -
  consider "p = []" | "p \<noteq> []" "r = []" | "p \<noteq> []" "r \<noteq> []" "\<not> bCatalogLoaded R"
    | "p \<noteq> []" "r \<noteq> []" "bCatalogLoaded R" "\<not> IsValidRewardId r R"
    | "p \<noteq> []" "r \<noteq> []" "bCatalogLoaded R" "IsValidRewardId r R" "HasReward p r R"
    | "p \<noteq> []" "r \<noteq> []" "bCatalogLoaded R" "IsValidRewardId r R" "\<not> HasReward p r R"
    by blast
  then show ?thesis
  proof cases
    case 1 then show ?thesis by (simp add: GrantReward_def)
  next
    case 2 then show ?thesis by (simp add: GrantReward_def)
  next
    case 3 then show ?thesis by (simp add: GrantReward_def)
  next
    case 4 then show ?thesis by (simp add: GrantReward_def)
  next
    case 5 then show ?thesis by (simp add: GrantReward_held)
  next
    case 6 then show ?thesis by (simp add: GrantReward_fresh)
  qed
qed

lemma KeyOf_p1: "KeyOf ''p1'' = ''p1''"
  by (simp add: KeyOf_def ToLower_def)

lemma SampleGranted_value:
  "SampleGranted = SampleRewards\<lparr>PlayerRewards := [''p1'' \<mapsto> [''sword_of_dawn'']]\<rparr>"
  by (simp add: SampleGranted_def GrantReward_cases SampleRewards_def NewRewardSystem_def
        IsValidRewardId_def SampleCatalog_def HasReward_def GetPlayerRewards_def TMap_Find_def
        KeyOf_p1 FString_eq_def ToLower_def)


subsection \<open>C2: the order of the checks in GrantReward\<close>

text \<open>
  Claim C2. \<open>GrantReward\<close> answers with the first of these that applies:
  \<open>INVALID_PLAYER_ID\<close> for an empty player id; \<open>INVALID_REWARD_ID\<close> with the
  message \<open>Reward ID is empty\<close> for an empty reward id;
  \<open>REWARD_CATALOG_NOT_FOUND\<close> when the catalog is not loaded;
  \<open>INVALID_REWARD_ID\<close> with the \<open>not found in catalog\<close> message, which is never
  the \<open>empty\<close> message, when no catalog entry has the reward id;
  \<open>REWARD_ALREADY_GRANTED\<close> when the player's rewards already contain it; and
  otherwise success carrying the reward id, with the reward id appended to the
  player's rewards. Every failure leaves the reward system as it was.
  Membership in the catalog and in the player's rewards is the engine's string
  comparison.
\<close>

theorem GrantReward_validation_order:
  "(p = [] \<longrightarrow>
      GrantReward p r R = (Failure ''INVALID_PLAYER_ID'' ''Player ID is empty'' [], R))
   \<and> (p \<noteq> [] \<and> r = [] \<longrightarrow>
      GrantReward p r R = (Failure ''INVALID_REWARD_ID'' ''Reward ID is empty'' [], R))
   \<and> (p \<noteq> [] \<and> r \<noteq> [] \<and> \<not> bCatalogLoaded R \<longrightarrow>
      GrantReward p r R =
        (Failure ''REWARD_CATALOG_NOT_FOUND'' ''Rewards catalog is not loaded'' r, R))
   \<and> (p \<noteq> [] \<and> r \<noteq> [] \<and> bCatalogLoaded R
        \<and> \<not> (\<exists>e \<in> set (Catalog_Rewards (Catalog R)). FString_eq (Entry_Id e) r) \<longrightarrow>
      GrantReward p r R = (Failure ''INVALID_REWARD_ID'' (NotFoundMessage r) r, R))
   \<and> (p \<noteq> [] \<and> r \<noteq> [] \<and> bCatalogLoaded R
        \<and> (\<exists>e \<in> set (Catalog_Rewards (Catalog R)). FString_eq (Entry_Id e) r)
        \<and> Contains (GetPlayerRewards p R) r \<longrightarrow>
      GrantReward p r R =
        (Failure ''REWARD_ALREADY_GRANTED'' (AlreadyGrantedMessage r) r, R))
   \<and> (p \<noteq> [] \<and> r \<noteq> [] \<and> bCatalogLoaded R
        \<and> (\<exists>e \<in> set (Catalog_Rewards (Catalog R)). FString_eq (Entry_Id e) r)
        \<and> \<not> Contains (GetPlayerRewards p R) r \<longrightarrow>
      GrantReward p r R = (Success r, snd (GrantReward p r R))
      \<and> GetPlayerRewards p (snd (GrantReward p r R)) = GetPlayerRewards p R @ [r]
      \<and> (\<forall>q. KeyOf q \<noteq> KeyOf p \<longrightarrow>
            GetPlayerRewards q (snd (GrantReward p r R)) = GetPlayerRewards q R))
   \<and> NotFoundMessage r \<noteq> ''Reward ID is empty''
   \<and> ErrorCode (Failure c m x) = c \<and> ErrorMessage (Failure c m x) = m
   \<and> \<not> bSuccess (Failure c m x) \<and> bSuccess (Success r) \<and> RewardId (Success r) = r"
proof -
  have v: "IsValidRewardId r R \<longleftrightarrow>
      bCatalogLoaded R \<and> (\<exists>e \<in> set (Catalog_Rewards (Catalog R)). FString_eq (Entry_Id e) r)"
    by (simp add: IsValidRewardId_def CatalogLoop_iff)
  have ok: "p \<noteq> [] \<and> r \<noteq> [] \<and> bCatalogLoaded R
        \<and> (\<exists>e \<in> set (Catalog_Rewards (Catalog R)). FString_eq (Entry_Id e) r)
        \<and> \<not> Contains (GetPlayerRewards p R) r \<longrightarrow>
      GrantReward p r R = (Success r, snd (GrantReward p r R))
      \<and> GetPlayerRewards p (snd (GrantReward p r R)) = GetPlayerRewards p R @ [r]
      \<and> (\<forall>q. KeyOf q \<noteq> KeyOf p \<longrightarrow>
            GetPlayerRewards q (snd (GrantReward p r R)) = GetPlayerRewards q R)"
    by (simp add: GrantReward_cases v HasReward_iff GetPlayerRewards_def TMap_Find_def)
  show ?thesis
    using ok
    by (simp add: GrantReward_cases v HasReward_iff messages_differ Failure_def Success_def)
qed

theorem GrantReward_validation_order_witness:
  "GrantReward [] ''sword_of_dawn'' SampleRewards =
     (Failure ''INVALID_PLAYER_ID'' ''Player ID is empty'' [], SampleRewards)
   \<and> GrantReward ''p1'' [] SampleRewards =
     (Failure ''INVALID_REWARD_ID'' ''Reward ID is empty'' [], SampleRewards)
   \<and> GrantReward ''p1'' ''sword_of_dawn'' (NewRewardSystem SampleCatalog False) =
     (Failure ''REWARD_CATALOG_NOT_FOUND'' ''Rewards catalog is not loaded'' ''sword_of_dawn'',
      NewRewardSystem SampleCatalog False)
   \<and> GrantReward ''p1'' ''nonexistent'' SampleRewards =
     (Failure ''INVALID_REWARD_ID'' ''Reward ID 'nonexistent' not found in catalog''
        ''nonexistent'', SampleRewards)
   \<and> GrantReward ''p1'' ''sword_of_dawn'' SampleRewards = (Success ''sword_of_dawn'', SampleGranted)
   \<and> GetPlayerRewards ''p1'' SampleRewards = []
   \<and> GetPlayerRewards ''p1'' SampleGranted = [''sword_of_dawn'']
   \<and> GetPlayerRewards ''p2'' SampleGranted = GetPlayerRewards ''p2'' SampleRewards
   \<and> GrantReward ''p1'' ''sword_of_dawn'' SampleGranted =
     (Failure ''REWARD_ALREADY_GRANTED'' ''Reward 'sword_of_dawn' already granted''
        ''sword_of_dawn'', SampleGranted)"
proof -
  have cat: "Catalog_Rewards (Catalog SampleRewards) = Catalog_Rewards SampleCatalog"
            "Catalog_Rewards (Catalog SampleGranted) = Catalog_Rewards SampleCatalog"
            "bCatalogLoaded SampleRewards" "bCatalogLoaded SampleGranted"
            "\<not> bCatalogLoaded (NewRewardSystem SampleCatalog False)"
    by (simp_all add: SampleGranted_value SampleRewards_def NewRewardSystem_def)
  have sword: "\<exists>e \<in> set (Catalog_Rewards SampleCatalog). FString_eq (Entry_Id e) ''sword_of_dawn''"
    by (simp add: SampleCatalog_def FString_eq_def)
  have none: "\<not> (\<exists>e \<in> set (Catalog_Rewards SampleCatalog). FString_eq (Entry_Id e) ''nonexistent'')"
    by (simp add: SampleCatalog_def FString_eq_def ToLower_def)
  have r0: "GetPlayerRewards ''p1'' SampleRewards = []"
    by (simp add: GetPlayerRewards_def SampleRewards_def NewRewardSystem_def TMap_Find_def)
  have r1: "GetPlayerRewards ''p1'' SampleGranted = [''sword_of_dawn'']"
    by (simp add: GetPlayerRewards_def SampleGranted_value TMap_Find_def KeyOf_p1)
  have k: "KeyOf ''p2'' \<noteq> KeyOf ''p1''"
    by (simp add: KeyOf_def ToLower_def)
  have c0: "\<not> Contains (GetPlayerRewards ''p1'' SampleRewards) ''sword_of_dawn''"
    by (simp add: r0 Contains_def)
  have c1: "Contains (GetPlayerRewards ''p1'' SampleGranted) ''sword_of_dawn''"
    by (simp add: r1 Contains_def FString_eq_def)
  have m1: "NotFoundMessage ''nonexistent'' = ''Reward ID 'nonexistent' not found in catalog''"
    by (simp add: NotFoundMessage_def)
  have m2: "AlreadyGrantedMessage ''sword_of_dawn'' = ''Reward 'sword_of_dawn' already granted''"
    by (simp add: AlreadyGrantedMessage_def)
  have 1: "GrantReward [] ''sword_of_dawn'' SampleRewards =
     (Failure ''INVALID_PLAYER_ID'' ''Player ID is empty'' [], SampleRewards)"
    using GrantReward_validation_order [of "[]" "''sword_of_dawn''" SampleRewards] by blast
  have 2: "GrantReward ''p1'' [] SampleRewards =
     (Failure ''INVALID_REWARD_ID'' ''Reward ID is empty'' [], SampleRewards)"
    using GrantReward_validation_order [of "''p1''" "[]" SampleRewards] by simp
  have 3: "GrantReward ''p1'' ''sword_of_dawn'' (NewRewardSystem SampleCatalog False) =
     (Failure ''REWARD_CATALOG_NOT_FOUND'' ''Rewards catalog is not loaded'' ''sword_of_dawn'',
      NewRewardSystem SampleCatalog False)"
    using GrantReward_validation_order
            [of "''p1''" "''sword_of_dawn''" "NewRewardSystem SampleCatalog False"] cat(5)
    by simp
  have 4: "GrantReward ''p1'' ''nonexistent'' SampleRewards =
     (Failure ''INVALID_REWARD_ID'' ''Reward ID 'nonexistent' not found in catalog''
        ''nonexistent'', SampleRewards)"
    using GrantReward_validation_order [of "''p1''" "''nonexistent''" SampleRewards]
      cat(1,3) none m1
    by simp
  note g = GrantReward_validation_order [of "''p1''" "''sword_of_dawn''" SampleRewards]
  have 5: "GrantReward ''p1'' ''sword_of_dawn'' SampleRewards = (Success ''sword_of_dawn'', SampleGranted)"
    using g cat(1,3) sword c0 by (simp add: SampleGranted_def)
  have 6: "GetPlayerRewards ''p2'' SampleGranted = GetPlayerRewards ''p2'' SampleRewards"
    using g cat(1,3) sword c0 k by (simp add: SampleGranted_def)
  have 7: "GrantReward ''p1'' ''sword_of_dawn'' SampleGranted =
     (Failure ''REWARD_ALREADY_GRANTED'' ''Reward 'sword_of_dawn' already granted''
        ''sword_of_dawn'', SampleGranted)"
    using GrantReward_validation_order [of "''p1''" "''sword_of_dawn''" SampleGranted]
      cat(2,4) sword c1 m2
    by simp
  from 1 2 3 4 5 r0 r1 6 7 show ?thesis by blast
qed


subsection \<open>C3: a reward is granted to a player at most once\<close>

lemma FString_eq_KeyOf: "FString_eq x r \<longleftrightarrow> KeyOf x = KeyOf r"
  by (simp add: FString_eq_def KeyOf_def)

lemma CountOf_distinct:
  "distinct (map KeyOf xs) \<Longrightarrow> CountOf r xs \<le> 1"
proof (induction xs)
  case Nil
  then show ?case by (simp add: CountOf_def)
next
  case (Cons x xs)
  show ?case
  proof (cases "KeyOf x = KeyOf r")
    case True
    with Cons.prems have "KeyOf r \<notin> KeyOf ` set xs" by simp
    then have "\<forall>y \<in> set xs. KeyOf y \<noteq> KeyOf r" by (metis imageI)
    then have "filter (\<lambda>y. FString_eq y r) xs = []"
      by (simp add: FString_eq_KeyOf filter_empty_conv)
    then show ?thesis using True by (simp add: CountOf_def FString_eq_KeyOf)
  next
    case False
    with Cons show ?thesis by (simp add: CountOf_def FString_eq_KeyOf)
  qed
qed

lemma CountOf_zero: "\<not> Contains xs r \<Longrightarrow> CountOf r xs = 0"
  by (simp add: CountOf_def Contains_iff filter_empty_conv)

lemma LedgerDistinct_find:
  "LedgerDistinct R \<Longrightarrow> distinct (map KeyOf (GetPlayerRewards q R))"
  by (auto simp: LedgerDistinct_def GetPlayerRewards_def TMap_Find_def ran_def
           split: option.split)

lemma LedgerDistinct_GrantReward:
  assumes "LedgerDistinct R"
  shows "LedgerDistinct (snd (GrantReward p r R))"
proof (cases "bSuccess (fst (GrantReward p r R))")
  case False
  then have "snd (GrantReward p r R) = R"
    by (simp add: GrantReward_cases Success_def split: if_splits)
  with assms show ?thesis by simp
next
  case True
  then have fresh: "\<not> HasReward p r R"
    and res: "snd (GrantReward p r R) =
      R\<lparr>PlayerRewards := (PlayerRewards R)(KeyOf p \<mapsto> GetPlayerRewards p R @ [r])\<rparr>"
    by (simp_all add: GrantReward_cases Failure_def split: if_splits)
  from fresh have "KeyOf r \<notin> set (map KeyOf (GetPlayerRewards p R))"
    by (auto simp: HasReward_iff Contains_iff FString_eq_KeyOf)
  with LedgerDistinct_find [OF assms, of p]
  have "distinct (map KeyOf (GetPlayerRewards p R @ [r]))" by simp
  with assms show ?thesis
    unfolding res LedgerDistinct_def
    by (auto simp: ran_def split: if_splits)
qed

lemma LedgerDistinct_GrantRun:
  "LedgerDistinct R \<Longrightarrow> LedgerDistinct (GrantRun R calls)"
  unfolding GrantRun_def
  by (induction calls arbitrary: R) (auto simp: LedgerDistinct_GrantReward)

lemma LedgerDistinct_New: "LedgerDistinct (NewRewardSystem C loaded)"
  by (simp add: LedgerDistinct_def NewRewardSystem_def)

text \<open>
  Claim C3. The first grant of a catalog reward \<open>r\<close> to a player \<open>p\<close> succeeds
  and the same call repeated at once answers \<open>REWARD_ALREADY_GRANTED\<close> and
  changes nothing; the player's rewards then hold exactly one entry for \<open>r\<close>.
  The first call succeeds exactly when \<open>p\<close> and \<open>r\<close> are not empty, \<open>r\<close> is in
  the loaded catalog and \<open>p\<close> does not hold \<open>r\<close> yet. After any run of grants
  on a reward system that started without player rewards, every player's
  rewards hold at most one entry for every reward id.
\<close>

theorem GrantReward_at_most_once:
  "(bSuccess (fst (GrantReward p r R)) \<longleftrightarrow>
      p \<noteq> [] \<and> r \<noteq> [] \<and> IsValidRewardId r R \<and> \<not> HasReward p r R)
   \<and> (bSuccess (fst (GrantReward p r R)) \<longrightarrow>
        fst (GrantReward p r R) = Success r
        \<and> GrantReward p r (snd (GrantReward p r R)) =
            (Failure ''REWARD_ALREADY_GRANTED'' (AlreadyGrantedMessage r) r,
             snd (GrantReward p r R))
        \<and> CountOf r (GetPlayerRewards p (snd (GrantReward p r R))) = 1)
   \<and> CountOf r' (GetPlayerRewards q (GrantRun (NewRewardSystem C loaded) calls)) \<le> 1"
proof -
  let ?R1 = "snd (GrantReward p r R)"
  have iff: "bSuccess (fst (GrantReward p r R)) \<longleftrightarrow>
      p \<noteq> [] \<and> r \<noteq> [] \<and> IsValidRewardId r R \<and> \<not> HasReward p r R"
    by (auto simp: GrantReward_cases Failure_def Success_def IsValidRewardId_def)
  have twice: "fst (GrantReward p r R) = Success r
        \<and> GrantReward p r ?R1 =
            (Failure ''REWARD_ALREADY_GRANTED'' (AlreadyGrantedMessage r) r, ?R1)
        \<and> CountOf r (GetPlayerRewards p ?R1) = 1"
    if ok: "bSuccess (fst (GrantReward p r R))"
  proof -
    from ok iff have pre: "p \<noteq> []" "r \<noteq> []" "IsValidRewardId r R" "\<not> HasReward p r R"
      by simp_all
    then have loaded: "bCatalogLoaded R"
      by (simp add: IsValidRewardId_def split: if_splits)
    have first: "GrantReward p r R =
        (Success r, R\<lparr>PlayerRewards := (PlayerRewards R)(KeyOf p \<mapsto> GetPlayerRewards p R @ [r])\<rparr>)"
      by (rule GrantReward_fresh [OF pre(1,2) loaded pre(3,4)])
    have rew: "GetPlayerRewards p ?R1 = GetPlayerRewards p R @ [r]"
      by (simp add: first GetPlayerRewards_def TMap_Find_def)
    have valid1: "IsValidRewardId r ?R1" "bCatalogLoaded ?R1"
      using pre(3) loaded by (simp_all add: first IsValidRewardId_def)
    have has1: "HasReward p r ?R1"
      by (simp add: HasReward_iff rew Contains_iff FString_eq_def)
    have second: "GrantReward p r ?R1 =
        (Failure ''REWARD_ALREADY_GRANTED'' (AlreadyGrantedMessage r) r, ?R1)"
      by (rule GrantReward_held [OF pre(1,2) valid1(2) valid1(1) has1])
    from pre(4) have "CountOf r (GetPlayerRewards p R) = 0"
      by (simp add: HasReward_iff CountOf_zero)
    then have one: "CountOf r (GetPlayerRewards p ?R1) = 1"
      by (simp add: rew CountOf_def FString_eq_def)
    from first second one show ?thesis by simp
  qed
  have inv: "CountOf r' (GetPlayerRewards q (GrantRun (NewRewardSystem C loaded) calls)) \<le> 1"
    by (intro CountOf_distinct LedgerDistinct_find LedgerDistinct_GrantRun LedgerDistinct_New)
  from iff twice inv show ?thesis by blast
qed

theorem GrantReward_at_most_once_witness:
  "bSuccess (fst (GrantReward ''p1'' ''sword_of_dawn'' SampleRewards))
   \<and> snd (GrantReward ''p1'' ''sword_of_dawn'' SampleRewards) = SampleGranted
   \<and> GrantReward ''p1'' ''sword_of_dawn'' SampleGranted =
       (Failure ''REWARD_ALREADY_GRANTED'' ''Reward 'sword_of_dawn' already granted''
          ''sword_of_dawn'', SampleGranted)
   \<and> GetPlayerRewards ''p1'' SampleGranted = [''sword_of_dawn'']
   \<and> GetPlayerRewards ''p1''
        (GrantRun (NewRewardSystem SampleCatalog True)
           [(''p1'', ''sword_of_dawn''), (''p1'', ''sword_of_dawn''), (''P1'', ''Sword_Of_Dawn'')])
       = [''sword_of_dawn'']
   \<and> CountOf ''sword_of_dawn''
        (GetPlayerRewards ''p1''
           (GrantRun (NewRewardSystem SampleCatalog True)
              [(''p1'', ''sword_of_dawn''), (''p1'', ''sword_of_dawn''), (''P1'', ''Sword_Of_Dawn'')]))
       \<le> 1"
proof -
  note t = GrantReward_at_most_once
    [of "''p1''" "''sword_of_dawn''" SampleRewards "''sword_of_dawn''" "''p1''" SampleCatalog True
        "[(''p1'', ''sword_of_dawn''), (''p1'', ''sword_of_dawn''), (''P1'', ''Sword_Of_Dawn'')]"]
  have pre: "IsValidRewardId ''sword_of_dawn'' SampleRewards"
            "\<not> HasReward ''p1'' ''sword_of_dawn'' SampleRewards"
    by (simp_all add: IsValidRewardId_def HasReward_def SampleRewards_def NewRewardSystem_def
          SampleCatalog_def FString_eq_def TMap_Find_def)
  have 1: "bSuccess (fst (GrantReward ''p1'' ''sword_of_dawn'' SampleRewards))"
    using t pre by simp
  have 2: "snd (GrantReward ''p1'' ''sword_of_dawn'' SampleRewards) = SampleGranted"
    by (simp add: SampleGranted_def)
  have m: "AlreadyGrantedMessage ''sword_of_dawn'' = ''Reward 'sword_of_dawn' already granted''"
    by (simp add: AlreadyGrantedMessage_def)
  have 3: "GrantReward ''p1'' ''sword_of_dawn'' SampleGranted =
       (Failure ''REWARD_ALREADY_GRANTED'' ''Reward 'sword_of_dawn' already granted''
          ''sword_of_dawn'', SampleGranted)"
    using t 1 by (simp add: 2 m)
  have 4: "GetPlayerRewards ''p1'' SampleGranted = [''sword_of_dawn'']"
    by (simp add: GetPlayerRewards_def SampleGranted_value TMap_Find_def KeyOf_p1)
  have k: "KeyOf ''P1'' = ''p1''"
    by (simp add: KeyOf_def ToLower_def)
  have l: "bCatalogLoaded SampleGranted"
    by (simp add: SampleGranted_value SampleRewards_def NewRewardSystem_def)
  have v: "IsValidRewardId ''Sword_Of_Dawn'' SampleGranted"
    by (simp add: IsValidRewardId_def SampleGranted_value SampleRewards_def
          NewRewardSystem_def SampleCatalog_def FString_eq_def ToLower_def)
  have h: "HasReward ''P1'' ''Sword_Of_Dawn'' SampleGranted"
    by (simp add: HasReward_def SampleGranted_value TMap_Find_def k Contains_def
          FString_eq_def ToLower_def)
  have third: "snd (GrantReward ''P1'' ''Sword_Of_Dawn'' SampleGranted) = SampleGranted"
    by (simp add: GrantReward_held [OF _ _ l v h])
  have "GrantRun (NewRewardSystem SampleCatalog True)
           [(''p1'', ''sword_of_dawn''), (''p1'', ''sword_of_dawn''), (''P1'', ''Sword_Of_Dawn'')]
         = snd (GrantReward ''P1'' ''Sword_Of_Dawn''
                 (snd (GrantReward ''p1'' ''sword_of_dawn''
                        (snd (GrantReward ''p1'' ''sword_of_dawn'' SampleRewards)))))"
    by (simp add: GrantRun_def SampleRewards_def)
  also have "\<dots> = SampleGranted"
    by (simp only: 2 3 third snd_conv)
  finally have run: "GrantRun (NewRewardSystem SampleCatalog True)
           [(''p1'', ''sword_of_dawn''), (''p1'', ''sword_of_dawn''), (''P1'', ''Sword_Of_Dawn'')]
         = SampleGranted" .
  have 5: "GetPlayerRewards ''p1''
        (GrantRun (NewRewardSystem SampleCatalog True)
           [(''p1'', ''sword_of_dawn''), (''p1'', ''sword_of_dawn''), (''P1'', ''Sword_Of_Dawn'')])
       = [''sword_of_dawn'']"
    by (simp add: run 4)
  from 1 2 3 4 5 t show ?thesis by blast
qed


section \<open>Token validator\<close>

lemma Segments_nonempty: "Segments s \<noteq> []"
  by (induction s) (auto simp: Let_def)

lemma ParseIntoArrayLoop_Segments:
  "ParseIntoArrayLoop (CHR ''.'') True Piece s =
     filter (\<lambda>x. x \<noteq> []) ((Piece @ hd (Segments s)) # tl (Segments s))"
proof (induction s arbitrary: Piece)
  case Nil
  then show ?case by simp
next
  case (Cons c cs)
  then show ?case using Segments_nonempty [of cs]
    by (cases "Segments cs") (auto simp: Let_def)
qed

lemma ParseIntoArray_Segments:
  "ParseIntoArray Token (CHR ''.'') True = NonEmptySegments Token"
proof (cases "Token = []")
  case True
  then show ?thesis by (simp add: ParseIntoArray_def NonEmptySegments_def)
next
  case False
  have "ParseIntoArrayLoop (CHR ''.'') True [] Token =
          filter (\<lambda>x. x \<noteq> []) (([] @ hd (Segments Token)) # tl (Segments Token))"
    by (rule ParseIntoArrayLoop_Segments)
  also have "([] @ hd (Segments Token)) # tl (Segments Token) = Segments Token"
    using Segments_nonempty [of Token] by simp
  finally show ?thesis
    using False by (simp add: ParseIntoArray_def NonEmptySegments_def)
qed

lemma ParseToken_Segments:
  "ParseToken Token =
     (case NonEmptySegments Token of
        [h, p, s] \<Rightarrow> Some (h, p, s)
      | _ \<Rightarrow> None)"
  by (auto simp: ParseToken_def ParseIntoArray_Segments Let_def split: list.splits)

lemma Segments_no_dot: "CHR ''.'' \<notin> set a \<Longrightarrow> Segments a = [a]"
  by (induction a) (auto simp: Let_def)

lemma Segments_dot:
  "CHR ''.'' \<notin> set a \<Longrightarrow> Segments (a @ CHR ''.'' # b) = a # Segments b"
  by (induction a) (auto simp: Let_def)

lemma Segments_three:
  assumes "CHR ''.'' \<notin> set h" "CHR ''.'' \<notin> set p" "CHR ''.'' \<notin> set s"
  shows "Segments (h @ ''.'' @ p @ ''.'' @ s) = [h, p, s]"
proof -
  have "h @ ''.'' @ p @ ''.'' @ s = h @ CHR ''.'' # (p @ CHR ''.'' # s)" by simp
  then show ?thesis
    by (simp only: Segments_dot [OF assms(1)] Segments_dot [OF assms(2)]
          Segments_no_dot [OF assms(3)])
qed

lemma ParseToken_three:
  assumes "CHR ''.'' \<notin> set h" "CHR ''.'' \<notin> set p" "CHR ''.'' \<notin> set s"
      and "h \<noteq> []" "p \<noteq> []" "s \<noteq> []"
  shows "ParseToken (h @ ''.'' @ p @ ''.'' @ s) = Some (h, p, s)"
proof -
  have ne: "NonEmptySegments (h @ ''.'' @ p @ ''.'' @ s) = [h, p, s]"
    unfolding NonEmptySegments_def Segments_three [OF assms(1-3)]
    using assms(4-6) by simp
  show ?thesis
    by (subst ParseToken_Segments) (simp only: ne list.case)
qed

lemma SampleToken_parse:
  "ParseToken SampleToken = Some (''eyJhbGciOiJub25lIn0'', SamplePayload, ''c2ln'')"
  unfolding SampleToken_def
  by (rule ParseToken_three) (simp_all add: SamplePayload_def)

lemma SampleTokenTwoDots_parse:
  "ParseToken SampleTokenTwoDots = Some (''eyJhbGciOiJub25lIn0'', SamplePayload, ''c2ln'')"
  by (simp add: ParseToken_def ParseIntoArray_def SampleTokenTwoDots_def SamplePayload_def)

lemma NegativeExpToken_parse:
  "ParseToken NegativeExpToken = Some (''eyJhbGciOiJub25lIn0'', NegativeExpPayload, ''c2ln'')"
  unfolding NegativeExpToken_def
  by (rule ParseToken_three) (simp_all add: NegativeExpPayload_def)

lemma FarExpToken_parse:
  "ParseToken FarExpToken = Some (''eyJhbGciOiJub25lIn0'', FarExpPayload, ''c2ln'')"
  unfolding FarExpToken_def
  by (rule ParseToken_three) (simp_all add: FarExpPayload_def)

lemma FractionExpToken_parse:
  "ParseToken FractionExpToken = Some (''eyJhbGciOiJub25lIn0'', FractionExpPayload, ''c2ln'')"
  unfolding FractionExpToken_def
  by (rule ParseToken_three) (simp_all add: FractionExpPayload_def)

lemma PlusToken_parse:
  "ParseToken PlusToken = Some (''eyJhbGciOiJub25lIn0'', PlusPayload, ''c2ln'')"
  unfolding PlusToken_def
  by (rule ParseToken_three) (simp_all add: PlusPayload_def)

lemma DollarToken_parse:
  "ParseToken DollarToken = Some (''$$$'', SamplePayload, ''???'')"
  unfolding DollarToken_def
  by (rule ParseToken_three) (simp_all add: SamplePayload_def)

lemmas SamplePayload_defs =
  SamplePayload_def NegativeExpPayload_def FarExpPayload_def FractionExpPayload_def
  PlusPayload_def

lemmas SamplePayloadText_defs =
  SamplePayloadText_def NegativeExpPayloadText_def FarExpPayloadText_def
  FractionExpPayloadText_def PlusPayloadText_def PayloadText_def Quoted_def

lemma Sample_decode:
  "DecodeBase64URL SampleEngine SamplePayload = Some SamplePayloadText"
  "DecodeBase64URL SampleEngine NegativeExpPayload = Some NegativeExpPayloadText"
  "DecodeBase64URL SampleEngine FarExpPayload = Some FarExpPayloadText"
  "DecodeBase64URL SampleEngine FractionExpPayload = Some FractionExpPayloadText"
  "DecodeBase64URL SampleEngine PlusPayload = Some PlusPayloadText"
  by (simp_all add: DecodeBase64URL_def Replace_def SampleEngine_def SamplePayload_defs
        numeral_2_eq_2)

lemma Sample_json:
  "Json_Deserialize SampleEngine SamplePayloadText = Some SamplePayloadObject"
  "Json_Deserialize SampleEngine NegativeExpPayloadText = Some NegativeExpPayloadObject"
  "Json_Deserialize SampleEngine FarExpPayloadText = Some FarExpPayloadObject"
  "Json_Deserialize SampleEngine FractionExpPayloadText = Some FractionExpPayloadObject"
  "Json_Deserialize SampleEngine PlusPayloadText = Some PlusPayloadObject"
  by (simp_all add: SampleEngine_def SamplePayloadText_defs)

lemma Sample_fields:
  "TryGetStringField SampleEngine (PayloadObject sb ex) ''sub'' = Some sb"
  "TryGetStringField SampleEngine (PayloadObject sb ex) ''token_use'' = Some ''access''"
  "TryGetStringField SampleEngine (PayloadObject sb ex) ''iss'' = None"
  "TryGetStringField SampleEngine (PayloadObject sb ex) ''aud'' = None"
  "TryGetStringField SampleEngine (PayloadObject sb ex) ''cognito:username'' = None"
  "TryGetNumberField SampleEngine (PayloadObject sb ex) ''exp'' = Some ex"
  "TryGetNumberField SampleEngine (PayloadObject sb ex) ''iat'' = None"
  "TryGetArrayField SampleEngine (PayloadObject sb ex) ''cognito:groups'' = None"
  by (simp_all add: SampleEngine_def PayloadObject_def)

lemma Sample_int32:
  "TryGetNumberField_int32 SampleEngine (PayloadObject sb 2000000000) ''exp'' = Some 2000000000"
  "TryGetNumberField_int32 SampleEngine (PayloadObject sb (- 3000000000)) ''exp'' = None"
  "TryGetNumberField_int32 SampleEngine (PayloadObject sb 4102444800) ''exp'' = None"
  "TryGetNumberField_int32 SampleEngine (PayloadObject sb (19000000004 / 10)) ''exp'' = Some 1900000000"
  "TryGetNumberField_int32 SampleEngine (PayloadObject sb ex) ''iat'' = None"
  by (simp_all add: TryGetNumberField_int32_def Sample_fields INT_MIN_def INT_MAX_def
        RoundHalfFromZero_def)

lemma ParseClaims_result:
  assumes "DecodeBase64URL E P = Some D" and "Json_Deserialize E D = Some J"
  shows "ParseClaims E P C0 =
           Some (C0\<lparr>Subject := (case TryGetStringField E J ''sub'' of
                                    Some s \<Rightarrow> s | None \<Rightarrow> Subject C0),
                      Issuer := (case TryGetStringField E J ''iss'' of
                                   Some s \<Rightarrow> s | None \<Rightarrow> Issuer C0),
                      Audience := (case TryGetStringField E J ''aud'' of
                                     Some s \<Rightarrow> s | None \<Rightarrow> Audience C0),
                      TokenUse := (case TryGetStringField E J ''token_use'' of
                                     Some s \<Rightarrow> s | None \<Rightarrow> TokenUse C0),
                      Username := (case TryGetStringField E J ''cognito:username'' of
                                     Some s \<Rightarrow> s | None \<Rightarrow> Username C0),
                      ExpirationTime := (case TryGetNumberField_int32 E J ''exp'' of
                                           Some e \<Rightarrow> e | None \<Rightarrow> ExpirationTime C0),
                      IssuedAt := (case TryGetNumberField_int32 E J ''iat'' of
                                     Some e \<Rightarrow> e | None \<Rightarrow> IssuedAt C0),
                      Groups := (case TryGetArrayField E J ''cognito:groups'' of
                                   Some GroupsArray \<Rightarrow>
                                     Groups C0 @ List.map_filter (\<lambda>g. g) GroupsArray
                                 | None \<Rightarrow> Groups C0)\<rparr>)"
  using assms by (simp add: ParseClaims_def)

lemma ParseClaims_fields:
  assumes "ParseClaims E P C0 = Some C"
      and "DecodeBase64URL E P = Some D" and "Json_Deserialize E D = Some J"
  shows "ExpirationTime C =
           (case TryGetNumberField_int32 E J ''exp'' of Some e \<Rightarrow> e | None \<Rightarrow> ExpirationTime C0)"
    and "Subject C = (case TryGetStringField E J ''sub'' of Some s \<Rightarrow> s | None \<Rightarrow> Subject C0)"
    and "TokenUse C =
           (case TryGetStringField E J ''token_use'' of Some s \<Rightarrow> s | None \<Rightarrow> TokenUse C0)"
  using assms by (auto simp: ParseClaims_def)

lemma SamplePayload_parse:
  "ParseClaims SampleEngine SamplePayload EmptyClaims = Some SampleClaims"
  by (simp add: ParseClaims_result [OF Sample_decode(1) Sample_json(1)] SamplePayloadObject_def
        Sample_fields Sample_int32 EmptyClaims_def SampleClaims_def)

lemma PlusPayload_parse:
  "ParseClaims SampleEngine PlusPayload EmptyClaims = Some PlusClaims"
  by (simp add: ParseClaims_result [OF Sample_decode(5) Sample_json(5)] PlusPayloadObject_def
        Sample_fields Sample_int32 EmptyClaims_def SampleClaims_def PlusClaims_def)

lemma SampleNow_unix: "ToUnixTimestamp SampleNow = 1900000000"
  by (simp add: ToUnixTimestamp_def SampleNow_def cpp_div_def UnixEpochTicks_def TicksPerSecond_def)

lemma RoundHalfFromZero_of_int: "RoundHalfFromZero (real_of_int n) = n"
proof -
  have "\<lfloor>real_of_int n + 1 / 2\<rfloor> = n" by linarith
  moreover have "\<lceil>real_of_int n - 1 / 2\<rceil> = n" by linarith
  ultimately show ?thesis by (simp add: RoundHalfFromZero_def)
qed

lemma RoundHalfFromZero_le:
  assumes "Double \<le> real_of_int n"
  shows "RoundHalfFromZero Double \<le> n"
proof (cases "0 \<le> Double")
  case True
  have "\<lfloor>Double + 1 / 2\<rfloor> \<le> n" using assms by linarith
  with True show ?thesis by (simp add: RoundHalfFromZero_def)
next
  case False
  have "\<lceil>Double - 1 / 2\<rceil> \<le> n" using assms by linarith
  with False show ?thesis by (simp add: RoundHalfFromZero_def)
qed

lemma TryGetNumberField_int32_of_int:
  assumes "TryGetNumberField E J k = Some (real_of_int e)" and "INT_MIN \<le> e" and "e \<le> INT_MAX"
  shows "TryGetNumberField_int32 E J k = Some e"
  using assms by (simp add: TryGetNumberField_int32_def RoundHalfFromZero_of_int)

lemma ParseToken_empty: "ParseToken [] = None"
  by (simp add: ParseToken_def ParseIntoArray_def)

lemma ValidateToken_unparsed:
  assumes "ParseToken Token = None"
  shows "ValidateToken cfg E UtcNow Token R =
           (False, R\<lparr>bIsValid := False,
                      JWT_ErrorMessage := (if Token = [] then ''Token is empty''
                                           else ''Invalid token format'')\<rparr>)"
  using assms by (simp add: ValidateToken_def)

lemma ValidateClaims_message:
  "fst (ValidateClaims cfg C m) \<Longrightarrow> snd (ValidateClaims cfg C m) = m"
  by (auto simp: ValidateClaims_def split: if_splits)

lemma ValidateToken_parsed:
  assumes "ParseToken Token = Some (H, P, S)" and "ParseClaims E P (Claims R) = Some C"
  shows "ValidateToken cfg E UtcNow Token R =
           (if ExpirationTime C \<le> ToUnixTimestamp UtcNow then
              (False, R\<lparr>bIsValid := False, JWT_ErrorMessage := ''Token has expired'', Claims := C\<rparr>)
            else if fst (ValidateClaims cfg C []) then
              (True, R\<lparr>bIsValid := True, JWT_ErrorMessage := [], Claims := C\<rparr>)
            else
              (False, R\<lparr>bIsValid := False, JWT_ErrorMessage := snd (ValidateClaims cfg C []),
                         Claims := C\<rparr>))"
proof -
  from assms(1) have ne: "Token \<noteq> []"
    using ParseToken_empty by auto
  obtain ok msg where vc: "ValidateClaims cfg C [] = (ok, msg)"
    by (cases "ValidateClaims cfg C []")
  have msg: "ok \<Longrightarrow> msg = []"
    using ValidateClaims_message [of cfg C "[]"] vc by simp
  show ?thesis
  proof (cases "ExpirationTime C \<le> ToUnixTimestamp UtcNow")
    case True
    then show ?thesis
      using ne assms by (simp add: ValidateToken_def IsTokenExpired_def)
  next
    case False
    then show ?thesis
      using ne assms vc msg
      by (cases ok) (simp_all add: ValidateToken_def IsTokenExpired_def VerifySignature_def)
  qed
qed

lemma DecodeToken_Segments:
  "DecodeToken E Token C0 =
     (case NonEmptySegments Token of
        [h, p, s] \<Rightarrow> ParseClaims E p C0
      | _ \<Rightarrow> None)"
  by (simp add: DecodeToken_def ParseToken_Segments split: list.split)

lemma ToLower_access: "map ToLower ''access'' = ''access''" "map ToLower ''id'' = ''id''"
  by (simp_all add: ToLower_def)

lemma ValidateClaims_fst:
  "fst (ValidateClaims cfg C msg) \<longleftrightarrow>
      (CognitoIssuer cfg = [] \<or> FString_eq (Issuer C) (CognitoIssuer cfg))
      \<and> (CognitoClientId cfg = [] \<or> FString_eq (Audience C) (CognitoClientId cfg))
      \<and> (FString_eq (TokenUse C) ''access'' \<or> FString_eq (TokenUse C) ''id'')
      \<and> Subject C \<noteq> []"
  by (simp add: ValidateClaims_def)

lemma ValidateClaims_fst_lower:
  "fst (ValidateClaims cfg C msg) \<longleftrightarrow>
      (CognitoIssuer cfg = [] \<or> map ToLower (Issuer C) = map ToLower (CognitoIssuer cfg))
      \<and> (CognitoClientId cfg = [] \<or> map ToLower (Audience C) = map ToLower (CognitoClientId cfg))
      \<and> (map ToLower (TokenUse C) = ''access'' \<or> map ToLower (TokenUse C) = ''id'')
      \<and> Subject C \<noteq> []"
  unfolding ValidateClaims_fst FString_eq_def ToLower_access ..

lemma FString_eq_refl: "FString_eq a a"
  by (simp add: FString_eq_def)

subsection \<open>C5: expiry before the other claims, and the width of the expiry read\<close>

text \<open>
  The expiry check does come before the claims check, and its boundary is
  inclusive: when the token has three parts and its payload parses, and the
  current Unix time is at or past the expiration time \<open>ParseClaims\<close> left in
  the claims, \<open>ValidateToken\<close> returns false with \<open>Token has expired\<close>, for
  every configuration and whatever issuer, audience, token use and subject
  the token has. And when the payload's \<open>exp\<close> lies between \<open>INT_MIN\<close> and
  \<open>INT_MAX\<close>, the time left in the claims is that \<open>exp\<close>, rounded, so that a
  current time at or past the payload's \<open>exp\<close> gives that answer.
\<close>

lemma ValidateToken_expired_first:
  assumes "ParseToken Token = Some (Header, Payload, Signature)"
      and "ParseClaims E Payload (Claims R) = Some C"
      and "ExpirationTime C \<le> ToUnixTimestamp UtcNow"
  shows "ValidateToken cfg E UtcNow Token R =
           (False, R\<lparr>bIsValid := False, JWT_ErrorMessage := ''Token has expired'', Claims := C\<rparr>)"
  using assms(3) by (simp add: ValidateToken_parsed [OF assms(1,2)])

lemma ValidateToken_expired_in_range:
  assumes "ParseToken Token = Some (Header, Payload, Signature)"
      and "DecodeBase64URL E Payload = Some D" and "Json_Deserialize E D = Some J"
      and "TryGetNumberField E J ''exp'' = Some Exp"
      and "real_of_int INT_MIN \<le> Exp" and "Exp \<le> real_of_int INT_MAX"
      and "Exp \<le> real_of_int (ToUnixTimestamp UtcNow)"
  shows "fst (ValidateToken cfg E UtcNow Token R) = False
         \<and> JWT_ErrorMessage (snd (ValidateToken cfg E UtcNow Token R)) = ''Token has expired''"
proof -
  obtain C where C: "ParseClaims E Payload (Claims R) = Some C"
    using ParseClaims_result [OF assms(2,3)] by blast
  have "TryGetNumberField_int32 E J ''exp'' = Some (RoundHalfFromZero Exp)"
    using assms(4,5,6) by (simp add: TryGetNumberField_int32_def)
  then have "ExpirationTime C = RoundHalfFromZero Exp"
    using ParseClaims_fields(1) [OF C assms(2,3)] by simp
  then have "ExpirationTime C \<le> ToUnixTimestamp UtcNow"
    using RoundHalfFromZero_le [OF assms(7)] by simp
  from ValidateToken_expired_first [OF assms(1) C this, of cfg] show ?thesis by simp
qed

text \<open>
  Claim C5 says that every token with three parts and a payload that parses
  is refused as expired once the current time is at or past its \<open>exp\<close>.
  \<open>ParseClaims\<close> reads \<open>exp\<close> into an \<open>int32\<close> before it widens it to the
  \<open>int64\<close> member. An \<open>exp\<close> outside the \<open>int32\<close> range is therefore not read
  at all, and the expiry check runs on the value the member had before. The
  sample token with \<open>exp\<close> -3000000000 is long expired at Unix time
  1900000000; \<open>ValidateJWTToken\<close>, whose local result starts with an
  uninitialised expiration time, here 9000000000, accepts it and hands out
  its subject, and so does \<open>ValidateToken\<close> on a result that still holds the
  expiration time 2000000000 of a token validated before.
\<close>

theorem expired_token_admitted:
  "ParseToken NegativeExpToken = Some (''eyJhbGciOiJub25lIn0'', NegativeExpPayload, ''c2ln'')
   \<and> DecodeBase64URL SampleEngine NegativeExpPayload = Some NegativeExpPayloadText
   \<and> Json_Deserialize SampleEngine NegativeExpPayloadText = Some NegativeExpPayloadObject
   \<and> TryGetNumberField SampleEngine NegativeExpPayloadObject ''exp'' = Some (- 3000000000)
   \<and> (- 3000000000 :: real) \<le> real_of_int (ToUnixTimestamp SampleNow)
   \<and> TryGetNumberField_int32 SampleEngine NegativeExpPayloadObject ''exp'' = None
   \<and> ValidateJWTToken NoCognitoConfig SampleEngine SampleNow (9000000000, 0) NegativeExpToken [] []
        = (True, ''p1'', [])
   \<and> ValidateToken NoCognitoConfig SampleEngine SampleNow NegativeExpToken
        \<lparr>bIsValid = True, JWT_ErrorMessage = [], Claims = SampleClaims\<rparr>
        = (True, \<lparr>bIsValid = True, JWT_ErrorMessage = [], Claims = SampleClaims\<rparr>)"
proof -
  let ?Ca = "\<lparr>Subject = [], Issuer = [], Audience = [], ExpirationTime = 9000000000,
             IssuedAt = 0, TokenUse = [], Username = [], Groups = []\<rparr>"
  let ?Ra = "\<lparr>bIsValid = False, JWT_ErrorMessage = [], Claims = ?Ca\<rparr>"
  let ?Cb = "\<lparr>Subject = ''p1'', Issuer = [], Audience = [], ExpirationTime = 9000000000,
             IssuedAt = 0, TokenUse = ''access'', Username = [], Groups = []\<rparr>"
  let ?Rc = "\<lparr>bIsValid = True, JWT_ErrorMessage = [], Claims = SampleClaims\<rparr>"
  have f: "TryGetNumberField SampleEngine NegativeExpPayloadObject ''exp'' = Some (- 3000000000)"
    by (simp add: NegativeExpPayloadObject_def Sample_fields)
  have n: "(- 3000000000 :: real) \<le> real_of_int (ToUnixTimestamp SampleNow)"
    by (simp add: SampleNow_unix)
  have i: "TryGetNumberField_int32 SampleEngine NegativeExpPayloadObject ''exp'' = None"
    by (simp add: NegativeExpPayloadObject_def Sample_int32)
  have p0: "ParseClaims SampleEngine NegativeExpPayload (Claims ?Ra) = Some ?Cb"
    by (simp add: ParseClaims_result [OF Sample_decode(2) Sample_json(2)]
          NegativeExpPayloadObject_def Sample_fields Sample_int32)
  have c1: "fst (ValidateClaims NoCognitoConfig ?Cb [])"
    by (simp add: ValidateClaims_fst NoCognitoConfig_def FString_eq_refl)
  have v0: "ValidateToken NoCognitoConfig SampleEngine SampleNow NegativeExpToken ?Ra =
              (True, \<lparr>bIsValid = True, JWT_ErrorMessage = [], Claims = ?Cb\<rparr>)"
    using c1 by (simp add: ValidateToken_parsed [OF NegativeExpToken_parse p0] SampleNow_unix)
  have ne: "NegativeExpToken \<noteq> []"
    by (simp add: NegativeExpToken_def)
  have j: "ValidateJWTToken NoCognitoConfig SampleEngine SampleNow (9000000000, 0)
             NegativeExpToken [] [] = (True, ''p1'', [])"
    using ne by (simp add: ValidateJWTToken_def v0)
  have p: "ParseClaims SampleEngine NegativeExpPayload (Claims ?Rc) = Some SampleClaims"
    by (simp add: ParseClaims_result [OF Sample_decode(2) Sample_json(2)]
          NegativeExpPayloadObject_def Sample_fields Sample_int32 SampleClaims_def)
  have c: "fst (ValidateClaims NoCognitoConfig SampleClaims [])"
    by (simp add: ValidateClaims_fst NoCognitoConfig_def SampleClaims_def FString_eq_refl)
  have e: "ToUnixTimestamp SampleNow < ExpirationTime SampleClaims"
    by (simp add: SampleNow_unix SampleClaims_def)
  have v: "ValidateToken NoCognitoConfig SampleEngine SampleNow NegativeExpToken ?Rc = (True, ?Rc)"
    using c e by (simp add: ValidateToken_parsed [OF NegativeExpToken_parse p])
  from NegativeExpToken_parse Sample_decode(2) Sample_json(2) f n i j v show ?thesis by blast
qed


subsection \<open>C7: open mode, and how a configured issuer or audience is matched\<close>

text \<open>
  Claim C7 says that a configured issuer or audience is matched exactly and
  with regard to case, and that every well-formed token that is not expired,
  has token use \<open>access\<close> or \<open>id\<close> and a subject validates when no issuer
  and no client id are configured. The comparison is the engine's
  \<open>operator!=\<close> on \<open>FString\<close>, which ignores case: with the issuer and the
  client id configured, claims that spell both in capitals pass. And the
  expiry check does not see the payload's \<open>exp\<close> but what the \<open>int32\<close> read
  makes of it: at Unix time 1900000000, with nothing configured and a result
  whose expiration time is 0, the token with \<open>exp\<close> 4102444800 (the year
  2100) is refused as expired, its \<open>exp\<close> being above \<open>INT_MAX\<close> and
  therefore not read, and so is the token with \<open>exp\<close> 1900000000.4, which
  is read as 1900000000.
\<close>

theorem ValidateClaims_case_counterexample:
  "CognitoIssuer SampleConfig = ''https://cognito-idp.eu-west-1.amazonaws.com/Pool1''
   \<and> CognitoClientId SampleConfig = ''Client1''
   \<and> Issuer SampleUpperCaseClaims = ''HTTPS://COGNITO-IDP.EU-WEST-1.AMAZONAWS.COM/POOL1''
   \<and> Audience SampleUpperCaseClaims = ''CLIENT1''
   \<and> Issuer SampleUpperCaseClaims \<noteq> CognitoIssuer SampleConfig
   \<and> Audience SampleUpperCaseClaims \<noteq> CognitoClientId SampleConfig
   \<and> ValidateClaims SampleConfig SampleUpperCaseClaims [] = (True, [])
   \<and> CognitoIssuer NoCognitoConfig = [] \<and> CognitoClientId NoCognitoConfig = []
   \<and> ToUnixTimestamp SampleNow = 1900000000
   \<and> ParseToken FarExpToken = Some (''eyJhbGciOiJub25lIn0'', FarExpPayload, ''c2ln'')
   \<and> DecodeBase64URL SampleEngine FarExpPayload = Some FarExpPayloadText
   \<and> Json_Deserialize SampleEngine FarExpPayloadText = Some FarExpPayloadObject
   \<and> TryGetNumberField SampleEngine FarExpPayloadObject ''exp'' = Some 4102444800
   \<and> TryGetStringField SampleEngine FarExpPayloadObject ''token_use'' = Some ''access''
   \<and> TryGetStringField SampleEngine FarExpPayloadObject ''sub'' = Some ''p1''
   \<and> ValidateToken NoCognitoConfig SampleEngine SampleNow FarExpToken EmptyResult =
         (False, \<lparr>bIsValid = False, JWT_ErrorMessage = ''Token has expired'',
                  Claims = EmptyClaims\<lparr>Subject := ''p1'', TokenUse := ''access''\<rparr>\<rparr>)
   \<and> ParseToken FractionExpToken = Some (''eyJhbGciOiJub25lIn0'', FractionExpPayload, ''c2ln'')
   \<and> DecodeBase64URL SampleEngine FractionExpPayload = Some FractionExpPayloadText
   \<and> Json_Deserialize SampleEngine FractionExpPayloadText = Some FractionExpPayloadObject
   \<and> TryGetNumberField SampleEngine FractionExpPayloadObject ''exp'' = Some (19000000004 / 10)
   \<and> TryGetStringField SampleEngine FractionExpPayloadObject ''token_use'' = Some ''access''
   \<and> TryGetStringField SampleEngine FractionExpPayloadObject ''sub'' = Some ''p1''
   \<and> ValidateToken NoCognitoConfig SampleEngine SampleNow FractionExpToken EmptyResult =
         (False, \<lparr>bIsValid = False, JWT_ErrorMessage = ''Token has expired'',
                  Claims = EmptyClaims\<lparr>Subject := ''p1'', TokenUse := ''access'',
                                        ExpirationTime := 1900000000\<rparr>\<rparr>)"
proof -
  have a: "CognitoIssuer SampleConfig = ''https://cognito-idp.eu-west-1.amazonaws.com/Pool1''
     \<and> CognitoClientId SampleConfig = ''Client1''
     \<and> Issuer SampleUpperCaseClaims = ''HTTPS://COGNITO-IDP.EU-WEST-1.AMAZONAWS.COM/POOL1''
     \<and> Audience SampleUpperCaseClaims = ''CLIENT1''
     \<and> Issuer SampleUpperCaseClaims \<noteq> CognitoIssuer SampleConfig
     \<and> Audience SampleUpperCaseClaims \<noteq> CognitoClientId SampleConfig
     \<and> ValidateClaims SampleConfig SampleUpperCaseClaims [] = (True, [])"
    by (simp add: ValidateClaims_def SampleConfig_def SetCognitoConfig_def
          SampleUpperCaseClaims_def FString_eq_def ToLower_def)
  have cfg: "CognitoIssuer NoCognitoConfig = [] \<and> CognitoClientId NoCognitoConfig = []"
    by (simp add: NoCognitoConfig_def)
  have ff: "TryGetNumberField SampleEngine FarExpPayloadObject ''exp'' = Some 4102444800
     \<and> TryGetStringField SampleEngine FarExpPayloadObject ''token_use'' = Some ''access''
     \<and> TryGetStringField SampleEngine FarExpPayloadObject ''sub'' = Some ''p1''"
    by (simp add: FarExpPayloadObject_def Sample_fields)
  have fp: "ParseClaims SampleEngine FarExpPayload (Claims EmptyResult) =
              Some (EmptyClaims\<lparr>Subject := ''p1'', TokenUse := ''access''\<rparr>)"
    by (simp add: ParseClaims_result [OF Sample_decode(3) Sample_json(3)]
          FarExpPayloadObject_def Sample_fields Sample_int32 EmptyResult_def EmptyClaims_def)
  have fe: "ExpirationTime (EmptyClaims\<lparr>Subject := ''p1'', TokenUse := ''access''\<rparr>)
              \<le> ToUnixTimestamp SampleNow"
    by (simp add: EmptyClaims_def SampleNow_unix)
  have "ValidateToken NoCognitoConfig SampleEngine SampleNow FarExpToken EmptyResult =
         (False, EmptyResult\<lparr>bIsValid := False, JWT_ErrorMessage := ''Token has expired'',
                  Claims := EmptyClaims\<lparr>Subject := ''p1'', TokenUse := ''access''\<rparr>\<rparr>)"
    using fe by (simp add: ValidateToken_parsed [OF FarExpToken_parse fp])
  then have fv: "ValidateToken NoCognitoConfig SampleEngine SampleNow FarExpToken EmptyResult =
         (False, \<lparr>bIsValid = False, JWT_ErrorMessage = ''Token has expired'',
                  Claims = EmptyClaims\<lparr>Subject := ''p1'', TokenUse := ''access''\<rparr>\<rparr>)"
    by (simp add: EmptyResult_def)
  have rf: "TryGetNumberField SampleEngine FractionExpPayloadObject ''exp'' = Some (19000000004 / 10)
     \<and> TryGetStringField SampleEngine FractionExpPayloadObject ''token_use'' = Some ''access''
     \<and> TryGetStringField SampleEngine FractionExpPayloadObject ''sub'' = Some ''p1''"
    by (simp add: FractionExpPayloadObject_def Sample_fields)
  have ri: "TryGetNumberField_int32 SampleEngine (PayloadObject ''p1'' (9500000002 / 5)) ''exp''
              = Some 1900000000"
    using Sample_int32(4) [of "''p1''"] by simp
  have rp: "ParseClaims SampleEngine FractionExpPayload (Claims EmptyResult) =
              Some (EmptyClaims\<lparr>Subject := ''p1'', TokenUse := ''access'',
                                 ExpirationTime := 1900000000\<rparr>)"
    by (simp add: ParseClaims_result [OF Sample_decode(4) Sample_json(4)]
          FractionExpPayloadObject_def Sample_fields Sample_int32 ri EmptyResult_def
          EmptyClaims_def)
  have re: "ExpirationTime (EmptyClaims\<lparr>Subject := ''p1'', TokenUse := ''access'',
                                          ExpirationTime := 1900000000\<rparr>)
              \<le> ToUnixTimestamp SampleNow"
    by (simp add: SampleNow_unix)
  have "ValidateToken NoCognitoConfig SampleEngine SampleNow FractionExpToken EmptyResult =
         (False, EmptyResult\<lparr>bIsValid := False, JWT_ErrorMessage := ''Token has expired'',
                  Claims := EmptyClaims\<lparr>Subject := ''p1'', TokenUse := ''access'',
                                         ExpirationTime := 1900000000\<rparr>\<rparr>)"
    using re by (simp add: ValidateToken_parsed [OF FractionExpToken_parse rp])
  then have rv: "ValidateToken NoCognitoConfig SampleEngine SampleNow FractionExpToken EmptyResult =
         (False, \<lparr>bIsValid = False, JWT_ErrorMessage = ''Token has expired'',
                  Claims = EmptyClaims\<lparr>Subject := ''p1'', TokenUse := ''access'',
                                        ExpirationTime := 1900000000\<rparr>\<rparr>)"
    by (simp add: EmptyResult_def)
  from a cfg SampleNow_unix FarExpToken_parse Sample_decode(3) Sample_json(3) ff fv
       FractionExpToken_parse Sample_decode(4) Sample_json(4) rf rv
  show ?thesis by (intro conjI) simp_all
qed

text \<open>
  Claim C7 as amended. With no issuer configured the issuer check passes,
  with no client id configured the audience check passes. A configured value
  must equal the claim up to the case of the ASCII letters, which is how the
  engine compares strings; the token-use test against \<open>access\<close> and \<open>id\<close>
  ignores case in the same way. And a token validates, when neither issuer
  nor client id is configured, if it has three parts, its payload decodes to
  a JSON object whose \<open>exp\<close> lies between \<open>INT_MIN\<close> and \<open>INT_MAX\<close> and,
  rounded to the nearest whole number, is later than the current Unix time,
  whose \<open>token_use\<close> is \<open>access\<close> or \<open>id\<close> and whose \<open>sub\<close> is not empty:
  the result is valid, has no error message, and its claims carry the
  payload's \<open>sub\<close> as subject and the rounded \<open>exp\<close> as expiration time,
  whatever the result held before.
\<close>

theorem ValidateClaims_open_mode:
  "(fst (ValidateClaims cfg C msg) \<longleftrightarrow>
      (CognitoIssuer cfg = [] \<or> map ToLower (Issuer C) = map ToLower (CognitoIssuer cfg))
      \<and> (CognitoClientId cfg = [] \<or> map ToLower (Audience C) = map ToLower (CognitoClientId cfg))
      \<and> (map ToLower (TokenUse C) = ''access'' \<or> map ToLower (TokenUse C) = ''id'')
      \<and> Subject C \<noteq> [])
   \<and> (ParseToken Token = Some (Header, Payload, Signature)
        \<and> DecodeBase64URL E Payload = Some DecodedPayload
        \<and> Json_Deserialize E DecodedPayload = Some JsonObject
        \<and> TryGetNumberField E JsonObject ''exp'' = Some Exp
        \<and> real_of_int INT_MIN \<le> Exp \<and> Exp \<le> real_of_int INT_MAX
        \<and> ToUnixTimestamp UtcNow < RoundHalfFromZero Exp
        \<and> TryGetStringField E JsonObject ''token_use'' = Some Use
        \<and> (Use = ''access'' \<or> Use = ''id'')
        \<and> TryGetStringField E JsonObject ''sub'' = Some Sub
        \<and> Sub \<noteq> []
        \<and> CognitoIssuer cfg = [] \<and> CognitoClientId cfg = [] \<longrightarrow>
          fst (ValidateToken cfg E UtcNow Token R)
          \<and> bIsValid (snd (ValidateToken cfg E UtcNow Token R))
          \<and> JWT_ErrorMessage (snd (ValidateToken cfg E UtcNow Token R)) = []
          \<and> Subject (Claims (snd (ValidateToken cfg E UtcNow Token R))) = Sub
          \<and> ExpirationTime (Claims (snd (ValidateToken cfg E UtcNow Token R)))
              = RoundHalfFromZero Exp)"
proof (rule conjI)
  show "fst (ValidateClaims cfg C msg) \<longleftrightarrow>
      (CognitoIssuer cfg = [] \<or> map ToLower (Issuer C) = map ToLower (CognitoIssuer cfg))
      \<and> (CognitoClientId cfg = [] \<or> map ToLower (Audience C) = map ToLower (CognitoClientId cfg))
      \<and> (map ToLower (TokenUse C) = ''access'' \<or> map ToLower (TokenUse C) = ''id'')
      \<and> Subject C \<noteq> []"
    by (rule ValidateClaims_fst_lower)
next
  show "ParseToken Token = Some (Header, Payload, Signature)
        \<and> DecodeBase64URL E Payload = Some DecodedPayload
        \<and> Json_Deserialize E DecodedPayload = Some JsonObject
        \<and> TryGetNumberField E JsonObject ''exp'' = Some Exp
        \<and> real_of_int INT_MIN \<le> Exp \<and> Exp \<le> real_of_int INT_MAX
        \<and> ToUnixTimestamp UtcNow < RoundHalfFromZero Exp
        \<and> TryGetStringField E JsonObject ''token_use'' = Some Use
        \<and> (Use = ''access'' \<or> Use = ''id'')
        \<and> TryGetStringField E JsonObject ''sub'' = Some Sub
        \<and> Sub \<noteq> []
        \<and> CognitoIssuer cfg = [] \<and> CognitoClientId cfg = [] \<longrightarrow>
          fst (ValidateToken cfg E UtcNow Token R)
          \<and> bIsValid (snd (ValidateToken cfg E UtcNow Token R))
          \<and> JWT_ErrorMessage (snd (ValidateToken cfg E UtcNow Token R)) = []
          \<and> Subject (Claims (snd (ValidateToken cfg E UtcNow Token R))) = Sub
          \<and> ExpirationTime (Claims (snd (ValidateToken cfg E UtcNow Token R)))
              = RoundHalfFromZero Exp"
  proof (rule impI, elim conjE)
    assume tok: "ParseToken Token = Some (Header, Payload, Signature)"
      and dec: "DecodeBase64URL E Payload = Some DecodedPayload"
      and jsn: "Json_Deserialize E DecodedPayload = Some JsonObject"
      and num: "TryGetNumberField E JsonObject ''exp'' = Some Exp"
      and lo: "real_of_int INT_MIN \<le> Exp" and hi: "Exp \<le> real_of_int INT_MAX"
      and later: "ToUnixTimestamp UtcNow < RoundHalfFromZero Exp"
      and use: "TryGetStringField E JsonObject ''token_use'' = Some Use"
      and useval: "Use = ''access'' \<or> Use = ''id''"
      and sub: "TryGetStringField E JsonObject ''sub'' = Some Sub"
      and subval: "Sub \<noteq> []"
      and iss: "CognitoIssuer cfg = []" and aud: "CognitoClientId cfg = []"
    obtain C' where par: "ParseClaims E Payload (Claims R) = Some C'"
      using ParseClaims_result [OF dec jsn] by blast
    have "TryGetNumberField_int32 E JsonObject ''exp'' = Some (RoundHalfFromZero Exp)"
      using num lo hi by (simp add: TryGetNumberField_int32_def)
    then have e: "ExpirationTime C' = RoundHalfFromZero Exp"
      using ParseClaims_fields(1) [OF par dec jsn] by simp
    have s: "Subject C' = Sub"
      using ParseClaims_fields(2) [OF par dec jsn] sub by simp
    have u: "TokenUse C' = Use"
      using ParseClaims_fields(3) [OF par dec jsn] use by simp
    from useval u have "FString_eq (TokenUse C') ''access'' \<or> FString_eq (TokenUse C') ''id''"
      using FString_eq_refl by auto
    with s subval iss aud have ok: "fst (ValidateClaims cfg C' [])"
      by (simp add: ValidateClaims_fst)
    have v: "ValidateToken cfg E UtcNow Token R =
            (True, R\<lparr>bIsValid := True, JWT_ErrorMessage := [], Claims := C'\<rparr>)"
      using later e ok by (simp add: ValidateToken_parsed [OF tok par])
    show "fst (ValidateToken cfg E UtcNow Token R)
          \<and> bIsValid (snd (ValidateToken cfg E UtcNow Token R))
          \<and> JWT_ErrorMessage (snd (ValidateToken cfg E UtcNow Token R)) = []
          \<and> Subject (Claims (snd (ValidateToken cfg E UtcNow Token R))) = Sub
          \<and> ExpirationTime (Claims (snd (ValidateToken cfg E UtcNow Token R)))
              = RoundHalfFromZero Exp"
      by (simp add: v s e)
  qed
qed

theorem ValidateClaims_open_mode_witness:
  "CognitoIssuer NoCognitoConfig = [] \<and> CognitoClientId NoCognitoConfig = []
   \<and> ParseToken SampleToken = Some (''eyJhbGciOiJub25lIn0'', SamplePayload, ''c2ln'')
   \<and> DecodeBase64URL SampleEngine SamplePayload = Some SamplePayloadText
   \<and> Json_Deserialize SampleEngine SamplePayloadText = Some SamplePayloadObject
   \<and> TryGetNumberField SampleEngine SamplePayloadObject ''exp'' = Some 2000000000
   \<and> real_of_int INT_MIN \<le> 2000000000 \<and> (2000000000 :: real) \<le> real_of_int INT_MAX
   \<and> RoundHalfFromZero 2000000000 = 2000000000
   \<and> ToUnixTimestamp SampleNow < RoundHalfFromZero 2000000000
   \<and> TryGetStringField SampleEngine SamplePayloadObject ''token_use'' = Some ''access''
   \<and> TryGetStringField SampleEngine SamplePayloadObject ''sub'' = Some ''p1''
   \<and> fst (ValidateToken NoCognitoConfig SampleEngine SampleNow SampleToken EmptyResult)
   \<and> bIsValid (snd (ValidateToken NoCognitoConfig SampleEngine SampleNow SampleToken EmptyResult))
   \<and> JWT_ErrorMessage
        (snd (ValidateToken NoCognitoConfig SampleEngine SampleNow SampleToken EmptyResult)) = []
   \<and> Subject (Claims
        (snd (ValidateToken NoCognitoConfig SampleEngine SampleNow SampleToken EmptyResult))) = ''p1''
   \<and> ExpirationTime (Claims
        (snd (ValidateToken NoCognitoConfig SampleEngine SampleNow SampleToken EmptyResult)))
        = 2000000000
   \<and> fst (ValidateClaims SampleConfig SampleUpperCaseClaims [])
   \<and> \<not> fst (ValidateClaims SampleConfig SampleClaims [])"
proof -
  have cfg: "CognitoIssuer NoCognitoConfig = []" "CognitoClientId NoCognitoConfig = []"
    by (simp_all add: NoCognitoConfig_def)
  have f: "TryGetNumberField SampleEngine SamplePayloadObject ''exp'' = Some 2000000000"
          "TryGetStringField SampleEngine SamplePayloadObject ''token_use'' = Some ''access''"
          "TryGetStringField SampleEngine SamplePayloadObject ''sub'' = Some ''p1''"
    by (simp_all add: SamplePayloadObject_def Sample_fields)
  have b: "real_of_int INT_MIN \<le> 2000000000" "(2000000000 :: real) \<le> real_of_int INT_MAX"
    by (simp_all add: INT_MIN_def INT_MAX_def)
  have r: "RoundHalfFromZero 2000000000 = 2000000000"
    using RoundHalfFromZero_of_int [of 2000000000] by simp
  have e: "ToUnixTimestamp SampleNow < RoundHalfFromZero 2000000000"
    by (simp add: r SampleNow_unix)
  note t = ValidateClaims_open_mode
    [of NoCognitoConfig SampleClaims "[]" SampleToken "''eyJhbGciOiJub25lIn0''" SamplePayload
        "''c2ln''" SampleEngine SamplePayloadText SamplePayloadObject 2000000000 SampleNow
        "''access''" "''p1''" EmptyResult, THEN conjunct2]
  have v: "fst (ValidateToken NoCognitoConfig SampleEngine SampleNow SampleToken EmptyResult)
     \<and> bIsValid (snd (ValidateToken NoCognitoConfig SampleEngine SampleNow SampleToken EmptyResult))
     \<and> JWT_ErrorMessage
          (snd (ValidateToken NoCognitoConfig SampleEngine SampleNow SampleToken EmptyResult)) = []
     \<and> Subject (Claims
          (snd (ValidateToken NoCognitoConfig SampleEngine SampleNow SampleToken EmptyResult))) = ''p1''
     \<and> ExpirationTime (Claims
          (snd (ValidateToken NoCognitoConfig SampleEngine SampleNow SampleToken EmptyResult)))
          = 2000000000"
    using t SampleToken_parse Sample_decode(1) Sample_json(1) f b e cfg r by simp
  have up: "map ToLower (Issuer SampleUpperCaseClaims) = map ToLower (CognitoIssuer SampleConfig)"
           "map ToLower (Audience SampleUpperCaseClaims) = map ToLower (CognitoClientId SampleConfig)"
           "map ToLower (TokenUse SampleUpperCaseClaims) = ''access''"
           "Subject SampleUpperCaseClaims \<noteq> []"
    by (simp_all add: SampleUpperCaseClaims_def SampleConfig_def SetCognitoConfig_def ToLower_def)
  have a: "fst (ValidateClaims SampleConfig SampleUpperCaseClaims [])"
    using ValidateClaims_open_mode [of SampleConfig SampleUpperCaseClaims "[]", THEN conjunct1] up
    by simp
  have no: "CognitoIssuer SampleConfig \<noteq> []"
           "map ToLower (Issuer SampleClaims) \<noteq> map ToLower (CognitoIssuer SampleConfig)"
    by (simp_all add: SampleClaims_def SampleConfig_def SetCognitoConfig_def)
  have n: "\<not> fst (ValidateClaims SampleConfig SampleClaims [])"
    using ValidateClaims_open_mode [of SampleConfig SampleClaims "[]", THEN conjunct1] no
    by simp
  from cfg SampleToken_parse Sample_decode(1) Sample_json(1) f b r e v a n
  show ?thesis by (intro conjI) simp_all
qed


subsection \<open>C9 and C10: the shape of a token\<close>

lemma SampleTokenTwoDots_Segments:
  "Segments SampleTokenTwoDots = [''eyJhbGciOiJub25lIn0'', [], SamplePayload, ''c2ln'']"
proof -
  have h: "CHR ''.'' \<notin> set ''eyJhbGciOiJub25lIn0''" by simp
  have e: "CHR ''.'' \<notin> set []" by simp
  have p: "CHR ''.'' \<notin> set SamplePayload" by (simp add: SamplePayload_def)
  have s: "CHR ''.'' \<notin> set ''c2ln''" by simp
  have eq: "SampleTokenTwoDots =
          ''eyJhbGciOiJub25lIn0'' @ CHR ''.'' # ([] @ CHR ''.'' # (SamplePayload @ CHR ''.'' # ''c2ln''))"
    by (simp add: SampleTokenTwoDots_def)
  show ?thesis
    by (subst eq)
       (simp only: Segments_dot [OF h] Segments_dot [OF e] Segments_dot [OF p] Segments_no_dot [OF s])
qed

lemma Base64Alphabet_chars:
  "c \<in> set Base64Alphabet \<Longrightarrow> c \<in> set Base64URLAlphabet \<or> c \<in> set ''+/=''"
  by (auto simp: Base64Alphabet_def Base64URLAlphabet_def)

lemma Base64URLAlphabet_chars: "CHR ''-'' \<in> set Base64URLAlphabet" "CHR ''_'' \<in> set Base64URLAlphabet"
  by (simp_all add: Base64URLAlphabet_def)

lemma DecodeBase64URL_alphabet:
  assumes eng: "\<forall>x. Base64_Decode E x \<noteq> None \<longrightarrow> list_all (\<lambda>c. c \<in> set Base64Alphabet) x"
      and bad: "\<exists>c \<in> set Payload. c \<notin> set Base64URLAlphabet \<and> c \<notin> set ''+/=''"
  shows "DecodeBase64URL E Payload = None"
proof -
  from bad obtain c where c: "c \<in> set Payload" "c \<notin> set Base64URLAlphabet" "c \<notin> set ''+/=''"
    by blast
  from c(2) have ne: "c \<noteq> CHR ''-''" "c \<noteq> CHR ''_''"
    using Base64URLAlphabet_chars by auto
  have nb: "c \<notin> set Base64Alphabet"
    using Base64Alphabet_chars [of c] c(2,3) by blast
  define B where "B = Replace (CHR ''_'') (CHR ''/'') (Replace (CHR ''-'') (CHR ''+'') Payload)"
  have "c \<in> set (Replace (CHR ''-'') (CHR ''+'') Payload)"
    using c(1) ne(1) by (force simp: Replace_def)
  then have "c \<in> set B"
    using ne(2) by (force simp: B_def Replace_def)
  then have "\<not> list_all (\<lambda>c. c \<in> set Base64Alphabet) (B @ replicate n (CHR ''=''))" for n
    using nb by (auto simp: list_all_iff)
  then have "Base64_Decode E (B @ replicate n (CHR ''='')) = None" for n
    using eng by blast
  then show ?thesis
    by (simp add: DecodeBase64URL_def Let_def B_def)
qed

lemma ValidateToken_unclaimed:
  assumes "ParseToken Token = Some (H, P, S)" and "ParseClaims E P (Claims R) = None"
  shows "ValidateToken cfg E UtcNow Token R =
           (False, R\<lparr>bIsValid := False, JWT_ErrorMessage := ''Failed to parse token claims''\<rparr>)"
proof -
  have "Token \<noteq> []" using assms(1) ParseToken_empty by auto
  then show ?thesis
    using assms by (simp add: ValidateToken_def)
qed

lemma ParseClaims_undecoded:
  "DecodeBase64URL E P = None \<Longrightarrow> ParseClaims E P C0 = None"
  by (simp add: ParseClaims_def)

lemma ValidateToken_payload_only:
  assumes "ParseToken Token = Some (H, P, S)" and "ParseToken Token' = Some (H', P, S')"
  shows "ValidateToken cfg E UtcNow Token R = ValidateToken cfg E UtcNow Token' R"
proof (cases "ParseClaims E P (Claims R)")
  case None
  show ?thesis
    by (simp only: ValidateToken_unclaimed [OF assms(1) None]
          ValidateToken_unclaimed [OF assms(2) None])
next
  case (Some C)
  show ?thesis
    by (simp only: ValidateToken_parsed [OF assms(1) Some] ValidateToken_parsed [OF assms(2) Some])
qed

lemma NonEmptySegments_three:
  assumes "CHR ''.'' \<notin> set h" "CHR ''.'' \<notin> set p" "CHR ''.'' \<notin> set s"
      and "h \<noteq> []" "p \<noteq> []" "s \<noteq> []"
  shows "NonEmptySegments (h @ ''.'' @ p @ ''.'' @ s) = [h, p, s]"
  unfolding NonEmptySegments_def Segments_three [OF assms(1-3)]
  using assms(4-6) by simp

lemma SampleEngine_alphabet:
  "\<forall>x. Base64_Decode SampleEngine x \<noteq> None \<longrightarrow> list_all (\<lambda>c. c \<in> set Base64Alphabet) x"
proof (intro allI impI)
  fix x assume "Base64_Decode SampleEngine x \<noteq> None"
  then have "x \<in> {SamplePayload @ ''='', NegativeExpPayload, FarExpPayload @ ''='',
                   FractionExpPayload @ ''=='', PlusPayload @ ''==''}"
    by (auto simp: SampleEngine_def split: if_splits)
  moreover have "list_all (\<lambda>c. c \<in> set Base64Alphabet) (SamplePayload @ ''='')"
    by (simp add: SamplePayload_def Base64Alphabet_def)
  moreover have "list_all (\<lambda>c. c \<in> set Base64Alphabet) NegativeExpPayload"
    by (simp add: NegativeExpPayload_def Base64Alphabet_def)
  moreover have "list_all (\<lambda>c. c \<in> set Base64Alphabet) (FarExpPayload @ ''='')"
    by (simp add: FarExpPayload_def Base64Alphabet_def)
  moreover have "list_all (\<lambda>c. c \<in> set Base64Alphabet) (FractionExpPayload @ ''=='')"
    by (simp add: FractionExpPayload_def Base64Alphabet_def)
  moreover have "list_all (\<lambda>c. c \<in> set Base64Alphabet) (PlusPayload @ ''=='')"
    by (simp add: PlusPayload_def Base64Alphabet_def)
  ultimately show "list_all (\<lambda>c. c \<in> set Base64Alphabet) x"
    by blast
qed

text \<open>
  Claim C9 says that every token that is not exactly three dot-separated
  base64url segments, in particular every token with exactly 2 or exactly 4
  dot-separated segments, fails in both \<open>ValidateToken\<close> and \<open>DecodeToken\<close>.
  Three sample tokens are accepted all the same. The sample token with a
  second dot after its header has four dot-separated segments, the second of
  them empty; \<open>ParseToken\<close> splits it into the same three parts as the sample
  token, \<open>DecodeToken\<close> returns its claims and \<open>ValidateToken\<close> accepts it.
  The token whose header is \<open>$$$\<close> and whose signature is \<open>???\<close>, neither
  of them base64url text, is decoded and accepted, the header and the
  signature never being decoded. And the token whose payload holds the
  character \<open>+\<close>, which base64url text does not, is decoded and accepted.
\<close>

theorem four_segments_accepted_counterexample:
  "Segments SampleTokenTwoDots = [''eyJhbGciOiJub25lIn0'', [], SamplePayload, ''c2ln'']
   \<and> length (Segments SampleTokenTwoDots) = 4
   \<and> ParseToken SampleTokenTwoDots = Some (''eyJhbGciOiJub25lIn0'', SamplePayload, ''c2ln'')
   \<and> DecodeToken SampleEngine SampleTokenTwoDots EmptyClaims = Some SampleClaims
   \<and> ValidateToken NoCognitoConfig SampleEngine SampleNow SampleTokenTwoDots EmptyResult =
        (True, \<lparr>bIsValid = True, JWT_ErrorMessage = [], Claims = SampleClaims\<rparr>)
   \<and> \<not> IsBase64URL ''$$$'' \<and> \<not> IsBase64URL ''???''
   \<and> Segments DollarToken = [''$$$'', SamplePayload, ''???'']
   \<and> ParseToken DollarToken = Some (''$$$'', SamplePayload, ''???'')
   \<and> DecodeToken SampleEngine DollarToken EmptyClaims = Some SampleClaims
   \<and> ValidateToken NoCognitoConfig SampleEngine SampleNow DollarToken EmptyResult =
        (True, \<lparr>bIsValid = True, JWT_ErrorMessage = [], Claims = SampleClaims\<rparr>)
   \<and> CHR ''+'' \<in> set PlusPayload \<and> \<not> IsBase64URL PlusPayload
   \<and> Segments PlusToken = [''eyJhbGciOiJub25lIn0'', PlusPayload, ''c2ln'']
   \<and> ParseToken PlusToken = Some (''eyJhbGciOiJub25lIn0'', PlusPayload, ''c2ln'')
   \<and> DecodeToken SampleEngine PlusToken EmptyClaims = Some PlusClaims
   \<and> ValidateToken NoCognitoConfig SampleEngine SampleNow PlusToken EmptyResult =
        (True, \<lparr>bIsValid = True, JWT_ErrorMessage = [], Claims = PlusClaims\<rparr>)"
proof -
  have p: "ParseClaims SampleEngine SamplePayload (Claims EmptyResult) = Some SampleClaims"
    by (simp add: EmptyResult_def SamplePayload_parse)
  have d: "DecodeToken SampleEngine SampleTokenTwoDots EmptyClaims = Some SampleClaims"
    by (simp add: DecodeToken_def SampleTokenTwoDots_parse SamplePayload_parse)
  have c: "fst (ValidateClaims NoCognitoConfig SampleClaims [])"
    by (simp add: ValidateClaims_fst NoCognitoConfig_def SampleClaims_def FString_eq_refl)
  have e: "\<not> ExpirationTime SampleClaims \<le> ToUnixTimestamp SampleNow"
    by (simp add: SampleNow_unix SampleClaims_def)
  have "ValidateToken NoCognitoConfig SampleEngine SampleNow SampleTokenTwoDots EmptyResult =
        (True, EmptyResult\<lparr>bIsValid := True, JWT_ErrorMessage := [], Claims := SampleClaims\<rparr>)"
    using c e by (simp add: ValidateToken_parsed [OF SampleTokenTwoDots_parse p])
  then have v: "ValidateToken NoCognitoConfig SampleEngine SampleNow SampleTokenTwoDots EmptyResult =
        (True, \<lparr>bIsValid = True, JWT_ErrorMessage = [], Claims = SampleClaims\<rparr>)"
    by (simp add: EmptyResult_def)
  have l: "length (Segments SampleTokenTwoDots) = 4"
    by (simp add: SampleTokenTwoDots_Segments)
  have nb: "\<not> IsBase64URL ''$$$''" "\<not> IsBase64URL ''???''"
    by (simp_all add: IsBase64URL_def Base64URLAlphabet_def)
  have ds: "Segments DollarToken = [''$$$'', SamplePayload, ''???'']"
    unfolding DollarToken_def
    by (rule Segments_three) (simp_all add: SamplePayload_def)
  have dd: "DecodeToken SampleEngine DollarToken EmptyClaims = Some SampleClaims"
    by (simp add: DecodeToken_def DollarToken_parse SamplePayload_parse)
  have "ValidateToken NoCognitoConfig SampleEngine SampleNow DollarToken EmptyResult =
        (True, EmptyResult\<lparr>bIsValid := True, JWT_ErrorMessage := [], Claims := SampleClaims\<rparr>)"
    using c e by (simp add: ValidateToken_parsed [OF DollarToken_parse p])
  then have dv: "ValidateToken NoCognitoConfig SampleEngine SampleNow DollarToken EmptyResult =
        (True, \<lparr>bIsValid = True, JWT_ErrorMessage = [], Claims = SampleClaims\<rparr>)"
    by (simp add: EmptyResult_def)
  have pm: "CHR ''+'' \<in> set PlusPayload"
    by (simp add: PlusPayload_def)
  have "CHR ''+'' \<notin> set Base64URLAlphabet"
    by (simp add: Base64URLAlphabet_def)
  with pm have pn: "\<not> IsBase64URL PlusPayload"
    by (auto simp: IsBase64URL_def list_all_iff)
  have ps: "Segments PlusToken = [''eyJhbGciOiJub25lIn0'', PlusPayload, ''c2ln'']"
    unfolding PlusToken_def
    by (rule Segments_three) (simp_all add: PlusPayload_def)
  have pp: "ParseClaims SampleEngine PlusPayload (Claims EmptyResult) = Some PlusClaims"
    by (simp add: EmptyResult_def PlusPayload_parse)
  have pd: "DecodeToken SampleEngine PlusToken EmptyClaims = Some PlusClaims"
    by (simp add: DecodeToken_def PlusToken_parse PlusPayload_parse)
  have pc: "fst (ValidateClaims NoCognitoConfig PlusClaims [])"
    by (simp add: ValidateClaims_fst NoCognitoConfig_def PlusClaims_def SampleClaims_def
          FString_eq_refl)
  have pe: "\<not> ExpirationTime PlusClaims \<le> ToUnixTimestamp SampleNow"
    by (simp add: SampleNow_unix PlusClaims_def SampleClaims_def)
  have "ValidateToken NoCognitoConfig SampleEngine SampleNow PlusToken EmptyResult =
        (True, EmptyResult\<lparr>bIsValid := True, JWT_ErrorMessage := [], Claims := PlusClaims\<rparr>)"
    using pc pe by (simp add: ValidateToken_parsed [OF PlusToken_parse pp])
  then have pv: "ValidateToken NoCognitoConfig SampleEngine SampleNow PlusToken EmptyResult =
        (True, \<lparr>bIsValid = True, JWT_ErrorMessage = [], Claims = PlusClaims\<rparr>)"
    by (simp add: EmptyResult_def)
  from SampleTokenTwoDots_Segments l SampleTokenTwoDots_parse d v nb ds DollarToken_parse dd dv
       pm pn ps PlusToken_parse pd pv
  show ?thesis by (intro conjI)
qed

text \<open>
  Claim C9 as amended. A token that does not have exactly three dot-separated
  segments that are not empty, in particular one with exactly 2 or exactly 4
  such segments, is rejected: \<open>ValidateToken\<close> returns false, marks the result
  invalid, leaves the claims of the result as they were, and reports
  \<open>Invalid token format\<close> (\<open>Token is empty\<close> for the empty string);
  \<open>DecodeToken\<close> returns false. Empty segments do not count. A token with
  three such segments is rejected when its second segment, the payload, does
  not decode: \<open>ValidateToken\<close> returns false, marks the result invalid,
  leaves its claims as they were and reports \<open>Failed to parse token claims\<close>,
  and \<open>DecodeToken\<close> returns false. With a base64 decoder that accepts
  nothing but letters, digits, \<open>+\<close>, \<open>/\<close> and \<open>=\<close>, the payload does not
  decode when it holds a character that is neither a base64url character nor
  one of \<open>+\<close>, \<open>/\<close>, \<open>=\<close>. The first and the third segment are not decoded:
  two tokens of three such segments with the same payload get the same
  answer from \<open>ValidateToken\<close> and from \<open>DecodeToken\<close>.
\<close>

theorem malformed_token_rejected:
  "(length (NonEmptySegments Token) \<noteq> 3 \<longrightarrow>
     ValidateToken cfg E UtcNow Token R =
       (False, R\<lparr>bIsValid := False,
                  JWT_ErrorMessage := (if Token = [] then ''Token is empty''
                                       else ''Invalid token format'')\<rparr>)
     \<and> Claims (snd (ValidateToken cfg E UtcNow Token R)) = Claims R
     \<and> DecodeToken E Token C0 = None)
   \<and> (NonEmptySegments Token = [Header, Payload, Signature]
        \<and> DecodeBase64URL E Payload = None \<longrightarrow>
          ValidateToken cfg E UtcNow Token R =
            (False, R\<lparr>bIsValid := False, JWT_ErrorMessage := ''Failed to parse token claims''\<rparr>)
          \<and> Claims (snd (ValidateToken cfg E UtcNow Token R)) = Claims R
          \<and> DecodeToken E Token C0 = None)
   \<and> ((\<forall>x. Base64_Decode E x \<noteq> None \<longrightarrow> list_all (\<lambda>c. c \<in> set Base64Alphabet) x)
        \<and> (\<exists>c \<in> set Payload. c \<notin> set Base64URLAlphabet \<and> c \<notin> set ''+/='') \<longrightarrow>
          DecodeBase64URL E Payload = None)
   \<and> (NonEmptySegments Token = [Header, Payload, Signature]
        \<and> NonEmptySegments Token' = [Header', Payload, Signature'] \<longrightarrow>
          ValidateToken cfg E UtcNow Token R = ValidateToken cfg E UtcNow Token' R
          \<and> DecodeToken E Token C0 = DecodeToken E Token' C0)"
proof (intro conjI impI)
  assume n: "length (NonEmptySegments Token) \<noteq> 3"
  then have p: "ParseToken Token = None"
    by (simp add: ParseToken_def ParseIntoArray_Segments Let_def)
  show "ValidateToken cfg E UtcNow Token R =
       (False, R\<lparr>bIsValid := False,
                  JWT_ErrorMessage := (if Token = [] then ''Token is empty''
                                       else ''Invalid token format'')\<rparr>)"
    by (simp add: ValidateToken_unparsed [OF p])
  show "Claims (snd (ValidateToken cfg E UtcNow Token R)) = Claims R"
    by (simp add: ValidateToken_unparsed [OF p])
  show "DecodeToken E Token C0 = None"
    by (simp add: DecodeToken_def p)
next
  assume h: "NonEmptySegments Token = [Header, Payload, Signature]
               \<and> DecodeBase64URL E Payload = None"
  then have p: "ParseToken Token = Some (Header, Payload, Signature)"
    by (simp add: ParseToken_Segments)
  from h have c: "ParseClaims E Payload C1 = None" for C1
    by (simp add: ParseClaims_undecoded)
  show "ValidateToken cfg E UtcNow Token R =
            (False, R\<lparr>bIsValid := False, JWT_ErrorMessage := ''Failed to parse token claims''\<rparr>)"
    by (rule ValidateToken_unclaimed [OF p c])
  show "Claims (snd (ValidateToken cfg E UtcNow Token R)) = Claims R"
    by (simp add: ValidateToken_unclaimed [OF p c])
  show "DecodeToken E Token C0 = None"
    by (simp add: DecodeToken_def p c)
next
  assume "(\<forall>x. Base64_Decode E x \<noteq> None \<longrightarrow> list_all (\<lambda>c. c \<in> set Base64Alphabet) x)
        \<and> (\<exists>c \<in> set Payload. c \<notin> set Base64URLAlphabet \<and> c \<notin> set ''+/='')"
  then show "DecodeBase64URL E Payload = None"
    using DecodeBase64URL_alphabet [of E Payload] by blast
next
  assume h: "NonEmptySegments Token = [Header, Payload, Signature]
               \<and> NonEmptySegments Token' = [Header', Payload, Signature']"
  then have p: "ParseToken Token = Some (Header, Payload, Signature)"
    and p': "ParseToken Token' = Some (Header', Payload, Signature')"
    by (simp_all add: ParseToken_Segments)
  show "ValidateToken cfg E UtcNow Token R = ValidateToken cfg E UtcNow Token' R"
    by (rule ValidateToken_payload_only [OF p p'])
  show "DecodeToken E Token C0 = DecodeToken E Token' C0"
    by (simp add: DecodeToken_def p p')
qed

theorem malformed_token_rejected_witness:
  "NonEmptySegments ''aa.bb'' = [''aa'', ''bb'']
   \<and> ValidateToken NoCognitoConfig SampleEngine SampleNow ''aa.bb'' EmptyResult =
        (False, \<lparr>bIsValid = False, JWT_ErrorMessage = ''Invalid token format'', Claims = EmptyClaims\<rparr>)
   \<and> DecodeToken SampleEngine ''aa.bb'' EmptyClaims = None
   \<and> NonEmptySegments ''aa.bb.cc.dd'' = [''aa'', ''bb'', ''cc'', ''dd'']
   \<and> ValidateToken NoCognitoConfig SampleEngine SampleNow ''aa.bb.cc.dd'' EmptyResult =
        (False, \<lparr>bIsValid = False, JWT_ErrorMessage = ''Invalid token format'', Claims = EmptyClaims\<rparr>)
   \<and> DecodeToken SampleEngine ''aa.bb.cc.dd'' EmptyClaims = None
   \<and> NonEmptySegments [] = []
   \<and> ValidateToken NoCognitoConfig SampleEngine SampleNow [] EmptyResult =
        (False, \<lparr>bIsValid = False, JWT_ErrorMessage = ''Token is empty'', Claims = EmptyClaims\<rparr>)
   \<and> dom (Base64_Decode SampleEngine) =
        {SamplePayload @ ''='', NegativeExpPayload, FarExpPayload @ ''='',
         FractionExpPayload @ ''=='', PlusPayload @ ''==''}
   \<and> list_all (list_all (\<lambda>c. c \<in> set Base64Alphabet))
        [SamplePayload @ ''='', NegativeExpPayload, FarExpPayload @ ''='',
         FractionExpPayload @ ''=='', PlusPayload @ ''=='']
   \<and> NonEmptySegments ''aa.!!.cc'' = [''aa'', ''!!'', ''cc'']
   \<and> CHR ''!'' \<in> set ''!!'' \<and> CHR ''!'' \<notin> set Base64URLAlphabet \<and> CHR ''!'' \<notin> set ''+/=''
   \<and> DecodeBase64URL SampleEngine ''!!'' = None
   \<and> ValidateToken NoCognitoConfig SampleEngine SampleNow ''aa.!!.cc'' EmptyResult =
        (False, \<lparr>bIsValid = False, JWT_ErrorMessage = ''Failed to parse token claims'',
                 Claims = EmptyClaims\<rparr>)
   \<and> DecodeToken SampleEngine ''aa.!!.cc'' EmptyClaims = None
   \<and> NonEmptySegments DollarToken = [''$$$'', SamplePayload, ''???'']
   \<and> NonEmptySegments SampleToken = [''eyJhbGciOiJub25lIn0'', SamplePayload, ''c2ln'']
   \<and> ValidateToken NoCognitoConfig SampleEngine SampleNow DollarToken EmptyResult
        = ValidateToken NoCognitoConfig SampleEngine SampleNow SampleToken EmptyResult
   \<and> DecodeToken SampleEngine DollarToken EmptyClaims
        = DecodeToken SampleEngine SampleToken EmptyClaims"
proof -
  have s2: "NonEmptySegments ''aa.bb'' = [''aa'', ''bb'']"
    and s4: "NonEmptySegments ''aa.bb.cc.dd'' = [''aa'', ''bb'', ''cc'', ''dd'']"
    and s0: "NonEmptySegments [] = []"
    and s3: "NonEmptySegments ''aa.!!.cc'' = [''aa'', ''!!'', ''cc'']"
    by (simp_all add: NonEmptySegments_def Let_def)
  note t2 = malformed_token_rejected
              [of "''aa.bb''" NoCognitoConfig SampleEngine SampleNow EmptyResult EmptyClaims,
               THEN conjunct1]
  note t4 = malformed_token_rejected
              [of "''aa.bb.cc.dd''" NoCognitoConfig SampleEngine SampleNow EmptyResult EmptyClaims,
               THEN conjunct1]
  note t0 = malformed_token_rejected
              [of "[]" NoCognitoConfig SampleEngine SampleNow EmptyResult EmptyClaims,
               THEN conjunct1]
  note t3 = malformed_token_rejected
              [of "''aa.!!.cc''" NoCognitoConfig SampleEngine SampleNow EmptyResult EmptyClaims
                  "''aa''" "''!!''" "''cc''"]
  note t5 = malformed_token_rejected
              [of DollarToken NoCognitoConfig SampleEngine SampleNow EmptyResult EmptyClaims
                  "''$$$''" SamplePayload "''???''" SampleToken "''eyJhbGciOiJub25lIn0''" "''c2ln''",
               THEN conjunct2, THEN conjunct2, THEN conjunct2]
  have r2: "ValidateToken NoCognitoConfig SampleEngine SampleNow ''aa.bb'' EmptyResult =
        (False, \<lparr>bIsValid = False, JWT_ErrorMessage = ''Invalid token format'', Claims = EmptyClaims\<rparr>)"
       "DecodeToken SampleEngine ''aa.bb'' EmptyClaims = None"
    using t2 by (simp_all add: s2 EmptyResult_def)
  have r4: "ValidateToken NoCognitoConfig SampleEngine SampleNow ''aa.bb.cc.dd'' EmptyResult =
        (False, \<lparr>bIsValid = False, JWT_ErrorMessage = ''Invalid token format'', Claims = EmptyClaims\<rparr>)"
       "DecodeToken SampleEngine ''aa.bb.cc.dd'' EmptyClaims = None"
    using t4 by (simp_all add: s4 EmptyResult_def)
  have r0: "ValidateToken NoCognitoConfig SampleEngine SampleNow [] EmptyResult =
        (False, \<lparr>bIsValid = False, JWT_ErrorMessage = ''Token is empty'', Claims = EmptyClaims\<rparr>)"
    using t0 by (simp add: s0 EmptyResult_def)
  have dm: "dom (Base64_Decode SampleEngine) =
        {SamplePayload @ ''='', NegativeExpPayload, FarExpPayload @ ''='',
         FractionExpPayload @ ''=='', PlusPayload @ ''==''}"
    by (auto simp: SampleEngine_def dom_def split: if_splits)
  have al: "list_all (list_all (\<lambda>c. c \<in> set Base64Alphabet))
        [SamplePayload @ ''='', NegativeExpPayload, FarExpPayload @ ''='',
         FractionExpPayload @ ''=='', PlusPayload @ ''=='']"
    by (simp add: SamplePayload_defs Base64Alphabet_def)
  have bad: "CHR ''!'' \<in> set ''!!''" "CHR ''!'' \<notin> set Base64URLAlphabet" "CHR ''!'' \<notin> set ''+/=''"
    by (simp_all add: Base64URLAlphabet_def)
  then have ex: "\<exists>c \<in> set ''!!''. c \<notin> set Base64URLAlphabet \<and> c \<notin> set ''+/=''"
    by blast
  have un: "DecodeBase64URL SampleEngine ''!!'' = None"
    using t3 [THEN conjunct2, THEN conjunct2] SampleEngine_alphabet ex by blast
  have r3: "ValidateToken NoCognitoConfig SampleEngine SampleNow ''aa.!!.cc'' EmptyResult =
        (False, \<lparr>bIsValid = False, JWT_ErrorMessage = ''Failed to parse token claims'',
                 Claims = EmptyClaims\<rparr>)"
       "DecodeToken SampleEngine ''aa.!!.cc'' EmptyClaims = None"
    using t3 [THEN conjunct2, THEN conjunct1] s3 un by (simp_all add: EmptyResult_def)
  have sd: "NonEmptySegments DollarToken = [''$$$'', SamplePayload, ''???'']"
    unfolding DollarToken_def
    by (rule NonEmptySegments_three) (simp_all add: SamplePayload_def)
  have ss: "NonEmptySegments SampleToken = [''eyJhbGciOiJub25lIn0'', SamplePayload, ''c2ln'']"
    unfolding SampleToken_def
    by (rule NonEmptySegments_three) (simp_all add: SamplePayload_def)
  have r5: "ValidateToken NoCognitoConfig SampleEngine SampleNow DollarToken EmptyResult
              = ValidateToken NoCognitoConfig SampleEngine SampleNow SampleToken EmptyResult"
           "DecodeToken SampleEngine DollarToken EmptyClaims
              = DecodeToken SampleEngine SampleToken EmptyClaims"
    using t5 sd ss by blast+
  from s2 r2 s4 r4 s0 r0 dm al s3 bad un r3 sd ss r5 show ?thesis by (intro conjI)
qed

text \<open>
  Claim C10. \<open>ParseToken\<close> accepts a token exactly when it has three
  dot-separated segments that are not empty, and hands out those three, in
  order; empty segments are dropped before the count. So \<open>a..b.c\<close> and
  \<open>a.b.c.\<close>, which have four dot-separated segments each, are accepted as
  \<open>a\<close>, \<open>b\<close>, \<open>c\<close>. \<open>DecodeToken\<close> and \<open>ValidateToken\<close> go on with the second
  of the three as the payload: \<open>DecodeToken\<close> is \<open>ParseClaims\<close> on it, and
  \<open>ValidateToken\<close> does not report \<open>Invalid token format\<close>.
\<close>

theorem ParseToken_counts_nonempty_segments:
  "(ParseToken Token \<noteq> None \<longleftrightarrow> length (NonEmptySegments Token) = 3)
   \<and> ParseToken Token =
        (case NonEmptySegments Token of [h, p, s] \<Rightarrow> Some (h, p, s) | _ \<Rightarrow> None)
   \<and> DecodeToken E Token C0 =
        (case NonEmptySegments Token of [h, p, s] \<Rightarrow> ParseClaims E p C0 | _ \<Rightarrow> None)
   \<and> (length (NonEmptySegments Token) = 3 \<longleftrightarrow>
        JWT_ErrorMessage (snd (ValidateToken cfg E UtcNow Token R))
          \<notin> {''Token is empty'', ''Invalid token format''})
   \<and> Segments ''a..b.c'' = [''a'', [], ''b'', ''c'']
   \<and> ParseToken ''a..b.c'' = Some (''a'', ''b'', ''c'')
   \<and> Segments ''a.b.c.'' = [''a'', ''b'', ''c'', []]
   \<and> ParseToken ''a.b.c.'' = Some (''a'', ''b'', ''c'')"
proof -
  have iff: "ParseToken Token \<noteq> None \<longleftrightarrow> length (NonEmptySegments Token) = 3"
    by (simp add: ParseToken_def ParseIntoArray_Segments Let_def)
  have msg: "length (NonEmptySegments Token) = 3 \<longleftrightarrow>
        JWT_ErrorMessage (snd (ValidateToken cfg E UtcNow Token R))
          \<notin> {''Token is empty'', ''Invalid token format''}"
  proof (cases "ParseToken Token")
    case None
    then show ?thesis
      using iff by (simp add: ValidateToken_unparsed)
  next
    case (Some t)
    obtain H P S where t: "t = (H, P, S)" by (cases t)
    have c: "snd (ValidateClaims cfg C []) \<notin> {''Token is empty'', ''Invalid token format''}" for C
      by (simp add: ValidateClaims_def)
    have ne: "Token \<noteq> []" using Some ParseToken_empty by auto
    show ?thesis
    proof (cases "ParseClaims E P (Claims R)")
      case None
      then show ?thesis
        using iff Some t ne by (simp add: ValidateToken_def)
    next
      case (Some C)
      from \<open>ParseToken Token = Some t\<close> t have "ParseToken Token = Some (H, P, S)" by simp
      from ValidateToken_parsed [OF this Some] c [of C] iff \<open>ParseToken Token = Some t\<close>
      show ?thesis by (simp split: if_splits)
    qed
  qed
  have ex: "Segments ''a..b.c'' = [''a'', [], ''b'', ''c'']"
           "ParseToken ''a..b.c'' = Some (''a'', ''b'', ''c'')"
           "Segments ''a.b.c.'' = [''a'', ''b'', ''c'', []]"
           "ParseToken ''a.b.c.'' = Some (''a'', ''b'', ''c'')"
    by (simp_all add: ParseToken_def ParseIntoArray_def Let_def)
  from iff msg ex ParseToken_Segments [of Token] DecodeToken_Segments [of E Token C0]
  show ?thesis by simp
qed

theorem ParseToken_counts_nonempty_segments_witness:
  "NonEmptySegments SampleTokenTwoDots = [''eyJhbGciOiJub25lIn0'', SamplePayload, ''c2ln'']
   \<and> ParseToken SampleTokenTwoDots = Some (''eyJhbGciOiJub25lIn0'', SamplePayload, ''c2ln'')
   \<and> DecodeToken SampleEngine SampleTokenTwoDots EmptyClaims
        = ParseClaims SampleEngine SamplePayload EmptyClaims
   \<and> NonEmptySegments ''a.b'' = [''a'', ''b'']
   \<and> ParseToken ''a.b'' = None"
proof -
  have n: "NonEmptySegments SampleTokenTwoDots = [''eyJhbGciOiJub25lIn0'', SamplePayload, ''c2ln'']"
    by (simp add: NonEmptySegments_def SampleTokenTwoDots_Segments SamplePayload_def)
  have m: "NonEmptySegments ''a.b'' = [''a'', ''b'']"
    by (simp add: NonEmptySegments_def Let_def)
  note t = ParseToken_counts_nonempty_segments [of SampleTokenTwoDots SampleEngine EmptyClaims]
  note u = ParseToken_counts_nonempty_segments [of "''a.b''" SampleEngine EmptyClaims]
  have 1: "ParseToken SampleTokenTwoDots = Some (''eyJhbGciOiJub25lIn0'', SamplePayload, ''c2ln'')"
    using t [THEN conjunct2, THEN conjunct1] by (simp add: n)
  have 2: "DecodeToken SampleEngine SampleTokenTwoDots EmptyClaims
        = ParseClaims SampleEngine SamplePayload EmptyClaims"
    using t [THEN conjunct2, THEN conjunct2, THEN conjunct1] by (simp add: n)
  have 3: "ParseToken ''a.b'' = None"
    using u [THEN conjunct2, THEN conjunct1] by (simp add: m)
  from n 1 2 m 3 show ?thesis by blast
qed


section \<open>Admission\<close>

lemma CountValid_filter:
  "CountValid IsValid ps n = n + int (length (filter IsValid ps))"
  by (induction ps arbitrary: n) simp_all

lemma IntToString_15: "IntToString 15 = ''15''"
  by code_simp

subsection \<open>C6: the capacity check comes first\<close>

text \<open>
  Claim C6. The current player count is the number of connected-player
  pointers that are still valid, counted when asked; nothing is removed from
  the list for it. A new player can be accepted exactly when that count is
  below \<open>MaxPlayers\<close>. When the count has reached \<open>MaxPlayers\<close>, \<open>PreLogin\<close>
  answers \<open>Server full\<close> and leaves the game mode alone, whatever the options,
  the token in them, the validator's configuration and the clock: no token
  check has a say. With \<open>MaxPlayers = 15\<close> and fifteen valid pointers, the
  answer is \<open>Server full. Maximum 15 players allowed.\<close> When the count is below
  \<open>MaxPlayers\<close>, the token is looked at next: options without one are answered
  with \<open>No JWT token provided\<close>.
\<close>

theorem PreLogin_capacity_first:
  "GetCurrentPlayerCount IsValid G = int (length (filter IsValid (ConnectedPlayers G)))
   \<and> (CanAcceptNewPlayer IsValid G \<longleftrightarrow> GetCurrentPlayerCount IsValid G < MaxPlayers G)
   \<and> (MaxPlayers G \<le> GetCurrentPlayerCount IsValid G \<longrightarrow>
        PreLogin cfg E ParseOption UtcNow Uninit NewGuid IsValid Options Err G =
          (''Server full. Maximum '' @ IntToString (MaxPlayers G) @ '' players allowed.'', G))
   \<and> (MaxPlayers G = 15 \<and> length (filter IsValid (ConnectedPlayers G)) = 15 \<longrightarrow>
        PreLogin cfg E ParseOption UtcNow Uninit NewGuid IsValid Options Err G =
          (''Server full. Maximum 15 players allowed.'', G))
   \<and> (GetCurrentPlayerCount IsValid G < MaxPlayers G \<and> ParseOption Options ''Token'' = [] \<longrightarrow>
        PreLogin cfg E ParseOption UtcNow Uninit NewGuid IsValid Options Err G =
          (''Authentication failed: No JWT token provided'', G))"
proof (intro conjI impI)
  show count: "GetCurrentPlayerCount IsValid G = int (length (filter IsValid (ConnectedPlayers G)))"
    by (simp add: GetCurrentPlayerCount_def CountValid_filter)
  show "CanAcceptNewPlayer IsValid G \<longleftrightarrow> GetCurrentPlayerCount IsValid G < MaxPlayers G"
    by (simp add: CanAcceptNewPlayer_def)
  show "PreLogin cfg E ParseOption UtcNow Uninit NewGuid IsValid Options Err G =
          (''Server full. Maximum '' @ IntToString (MaxPlayers G) @ '' players allowed.'', G)"
    if "MaxPlayers G \<le> GetCurrentPlayerCount IsValid G"
    using that by (simp add: PreLogin_def CanAcceptNewPlayer_def)
  show "PreLogin cfg E ParseOption UtcNow Uninit NewGuid IsValid Options Err G =
          (''Server full. Maximum 15 players allowed.'', G)"
    if "MaxPlayers G = 15 \<and> length (filter IsValid (ConnectedPlayers G)) = 15"
  proof -
    from that count have "\<not> CanAcceptNewPlayer IsValid G"
      by (simp add: CanAcceptNewPlayer_def)
    with that show ?thesis
      by (simp add: PreLogin_def IntToString_15)
  qed
  show "PreLogin cfg E ParseOption UtcNow Uninit NewGuid IsValid Options Err G =
          (''Authentication failed: No JWT token provided'', G)"
    if "GetCurrentPlayerCount IsValid G < MaxPlayers G \<and> ParseOption Options ''Token'' = []"
    using that by (simp add: PreLogin_def CanAcceptNewPlayer_def)
qed

theorem PreLogin_capacity_first_witness:
  "length (ConnectedPlayers SampleGameMode) = 17
   \<and> GetCurrentPlayerCount SampleIsValid SampleGameMode = 15
   \<and> MaxPlayers SampleGameMode = 15
   \<and> \<not> CanAcceptNewPlayer SampleIsValid SampleGameMode
   \<and> PreLogin NoCognitoConfig SampleEngine SampleParseOption SampleNow (0, 0) ''G-9''
        SampleIsValid (''?Token='' @ SampleToken) [] SampleGameMode =
        (''Server full. Maximum 15 players allowed.'', SampleGameMode)
   \<and> GetCurrentPlayerCount (\<lambda>p. p < 10) SampleGameMode = 9
   \<and> CanAcceptNewPlayer (\<lambda>p. p < 10) SampleGameMode
   \<and> SampleParseOption ''?Name=p1'' ''Token'' = []
   \<and> PreLogin NoCognitoConfig SampleEngine SampleParseOption SampleNow (0, 0) ''G-9''
        (\<lambda>p. p < 10) ''?Name=p1'' [] SampleGameMode =
        (''Authentication failed: No JWT token provided'', SampleGameMode)"
proof -
  note t = PreLogin_capacity_first
    [of SampleIsValid SampleGameMode NoCognitoConfig SampleEngine SampleParseOption SampleNow
        "(0, 0)" "''G-9''" "''?Token='' @ SampleToken" "[]"]
  note u = PreLogin_capacity_first
    [of "\<lambda>p. p < 10" SampleGameMode NoCognitoConfig SampleEngine SampleParseOption SampleNow
        "(0, 0)" "''G-9''" "''?Name=p1''" "[]"]
  have l: "length (ConnectedPlayers SampleGameMode) = 17"
    by (simp add: SampleGameMode_def)
  have f: "length (filter SampleIsValid (ConnectedPlayers SampleGameMode)) = 15"
    by (simp add: SampleGameMode_def SampleIsValid_def)
  have m: "MaxPlayers SampleGameMode = 15"
    by (simp add: SampleGameMode_def)
  have c: "GetCurrentPlayerCount SampleIsValid SampleGameMode = 15"
    using t f by simp
  have n: "\<not> CanAcceptNewPlayer SampleIsValid SampleGameMode"
    using t c m by simp
  have p: "PreLogin NoCognitoConfig SampleEngine SampleParseOption SampleNow (0, 0) ''G-9''
        SampleIsValid (''?Token='' @ SampleToken) [] SampleGameMode =
        (''Server full. Maximum 15 players allowed.'', SampleGameMode)"
    using t m f by blast
  have f9: "length (filter (\<lambda>p. p < 10) (ConnectedPlayers SampleGameMode)) = 9"
    by (simp add: SampleGameMode_def)
  have c9: "GetCurrentPlayerCount (\<lambda>p. p < 10) SampleGameMode = 9"
    using u f9 by simp
  have a: "CanAcceptNewPlayer (\<lambda>p. p < 10) SampleGameMode"
    using u c9 m by simp
  have o: "SampleParseOption ''?Name=p1'' ''Token'' = []"
    by (simp add: SampleParseOption_def)
  have q: "PreLogin NoCognitoConfig SampleEngine SampleParseOption SampleNow (0, 0) ''G-9''
        (\<lambda>p. p < 10) ''?Name=p1'' [] SampleGameMode =
        (''Authentication failed: No JWT token provided'', SampleGameMode)"
    using u c9 m o by simp
  from l c m n p c9 a o q show ?thesis by blast
qed


end
